theory Spec2Isabelle
  imports Main
begin

section \<open>Python values and the text written to the peer\<close>

text \<open>
  The attributes of a gpsd report are scalar JSON values. A float is kept abstract (type
  \<open>'f\<close>); the text \<open>json.dumps\<close> writes for it is the parameter \<open>fr\<close> of the functions
  below. Characters are code points below 256.
\<close>

datatype 'f pyval = PyInt int | PyFloat 'f | PyStr string

definition digit_of :: "nat \<Rightarrow> char" where
  "digit_of n = ''0123456789abcdef'' ! (n mod 16)"

function str_nat :: "nat \<Rightarrow> string" where
  "str_nat n = (if n < 10 then [digit_of n] else str_nat (n div 10) @ [digit_of (n mod 10)])"
  by pat_completeness auto
termination
  by (relation "measure id") auto

declare str_nat.simps [simp del]

text \<open>\<open>str(i)\<close> for a Python int.\<close>

definition str_int :: "int \<Rightarrow> string" where
  "str_int i = (if i < 0 then CHR ''-'' # str_nat (nat (- i)) else str_nat (nat i))"

text \<open>
  \<open>json.dumps\<close> runs with \<open>ensure_ascii=True\<close>: inside a string, the backslash, the double
  quote and the five short escapes are written with a backslash, every other character outside
  the range from space to tilde as \<open>\uXXXX\<close>.
\<close>

definition esc_char :: "char \<Rightarrow> string" where
  "esc_char c =
     (let n = (of_char c :: nat) in
      if n = 0x5C then [CHR 0x5C, CHR 0x5C]
      else if n = 0x22 then [CHR 0x5C, CHR 0x22]
      else if n = 0x08 then [CHR 0x5C, CHR ''b'']
      else if n = 0x0C then [CHR 0x5C, CHR ''f'']
      else if n = 0x0A then [CHR 0x5C, CHR ''n'']
      else if n = 0x0D then [CHR 0x5C, CHR ''r'']
      else if n = 0x09 then [CHR 0x5C, CHR ''t'']
      else if 0x20 \<le> n \<and> n \<le> 0x7E then [c]
      else [CHR 0x5C, CHR ''u'', CHR ''0'', CHR ''0'', digit_of (n div 16), digit_of (n mod 16)])"

definition json_quote :: "string \<Rightarrow> string" where
  "json_quote s = [CHR 0x22] @ concat (map esc_char s) @ [CHR 0x22]"

fun json_val :: "('f \<Rightarrow> string) \<Rightarrow> 'f pyval \<Rightarrow> string" where
  "json_val fr (PyInt i) = str_int i"
| "json_val fr (PyFloat x) = fr x"
| "json_val fr (PyStr s) = json_quote s"

text \<open>A dict keeps its insertion order, so it is an association list.\<close>

type_synonym 'f pydict = "(string \<times> 'f pyval) list"

fun json_items :: "('f \<Rightarrow> string) \<Rightarrow> 'f pydict \<Rightarrow> string" where
  "json_items fr [] = []"
| "json_items fr [(k, v)] = json_quote k @ '': '' @ json_val fr v"
| "json_items fr ((k, v) # kvs) = json_quote k @ '': '' @ json_val fr v @ '', '' @ json_items fr kvs"

definition json_dumps :: "('f \<Rightarrow> string) \<Rightarrow> 'f pydict \<Rightarrow> string" where
  "json_dumps fr d = ''{'' @ json_items fr d @ ''}''"

text \<open>\<open>str.encode('utf-8')\<close>, one or two bytes for a code point below 256.\<close>

definition utf8_char :: "char \<Rightarrow> string" where
  "utf8_char c =
     (let n = (of_char c :: nat) in
      if n < 128 then [c] else [char_of (192 + n div 64), char_of (128 + n mod 64)])"

definition encode_utf8 :: "string \<Rightarrow> string" where
  "encode_utf8 s = concat (map utf8_char s)"

section \<open>The telemetry poll\<close>

text \<open>
  \<open>gps_session.next()\<close> either raises or returns a report, a dict-backed object: \<open>report['class']\<close>
  and \<open>report.lat\<close> both look a key up. \<open>gps_session\<close> is \<open>None\<close> until \<open>setup_gps\<close> succeeds, and
  \<open>None.next()\<close> raises too.
\<close>

type_synonym 'f report = "string \<rightharpoonup> 'f pyval"

datatype 'f poll = PollRaises | PollReport "'f report"

definition getattr_default :: "'f report \<Rightarrow> string \<Rightarrow> 'f pyval \<Rightarrow> 'f pyval" where
  "getattr_default r k dflt = (case r k of None \<Rightarrow> dflt | Some v \<Rightarrow> v)"

text \<open>
  \<open>get_gps_data\<close>: the bare \<open>except\<close> turns every exception of the \<open>try\<close> block (a raising
  \<open>next()\<close>, a report without \<open>class\<close>) into the final \<open>return None\<close>.
\<close>

definition get_gps_data :: "bool \<Rightarrow> 'f poll \<Rightarrow> 'f pydict option" where
  "get_gps_data gps_session p =
     (if \<not> gps_session then None
      else case p of
        PollRaises \<Rightarrow> None
      | PollReport report \<Rightarrow>
          (case report ''class'' of
             None \<Rightarrow> None
           | Some cls \<Rightarrow>
               if cls = PyStr ''TPV'' then
                 (case (report ''lat'', report ''lon'') of
                    (Some lat, Some lon) \<Rightarrow>
                      Some [(''type'', PyStr ''gps''),
                            (''latitude'', lat),
                            (''longitude'', lon),
                            (''altitude'', getattr_default report ''alt'' (PyInt 0)),
                            (''speed'', getattr_default report ''speed'' (PyInt 0)),
                            (''timestamp'', getattr_default report ''time'' (PyStr ''''))]
                  | _ \<Rightarrow> None)
               else None))"

section \<open>The process and what it owns\<close>

text \<open>
  One record holds what the code reads and writes: the PID file at its fixed path (its text, or
  \<open>None\<close> when absent), the fields of \<open>DaemonGPSTracker\<close>, the sockets the process holds open, the
  bytes handed to \<open>send\<close> with the socket they went to, and the other calls it makes, in order.
  An open socket is a number with its kind: the listening socket, or a connection to a peer. \<open>pc\<close> is the place the process
  is blocked at; a process that ended is \<open>Exited\<close> with its status.
\<close>

datatype py_error = FileNotFoundError | ValueError | ProcessLookupError | OtherError

datatype level = LvInfo | LvWarning | LvError

datatype action = Print string | Log level string | Kill int nat | Sleep nat | Unlink

datatype sock_kind = Listener | Peer

datatype pc = AtMain | Daemonizing | Starting | Accepting | Polling | Sending string | Exited int

record world =
  pid_file :: "string option"
  running :: bool
  gps_session :: bool
  server_sock :: "nat option"
  client_sock :: "nat option"
  open_socks :: "(nat \<times> sock_kind) list"
  next_sock :: nat
  sent :: "(nat \<times> string) list"
  trace :: "action list"
  pc :: pc

definition emit :: "action \<Rightarrow> world \<Rightarrow> world" where
  "emit a w = w\<lparr>trace := trace w @ [a]\<rparr>"

definition log_msg :: "level \<Rightarrow> string \<Rightarrow> world \<Rightarrow> world" where
  "log_msg lv m w = emit (Log lv m) w"

definition print :: "string \<Rightarrow> world \<Rightarrow> world" where
  "print m w = emit (Print m) w"

definition sleep :: "nat \<Rightarrow> world \<Rightarrow> world" where
  "sleep n w = emit (Sleep n) w"

text \<open>\<open>socket.socket(...)\<close> and a successful \<open>accept()\<close> hand out a socket no one holds yet.\<close>

definition new_sock :: "sock_kind \<Rightarrow> world \<Rightarrow> nat \<times> world" where
  "new_sock k w =
     (next_sock w, w\<lparr>open_socks := (next_sock w, k) # open_socks w, next_sock := Suc (next_sock w)\<rparr>)"

text \<open>\<open>sock.close()\<close>; closing a closed socket does nothing.\<close>

definition close_sock :: "nat \<Rightarrow> world \<Rightarrow> world" where
  "close_sock i w = w\<lparr>open_socks := filter (\<lambda>s. fst s \<noteq> i) (open_socks w)\<rparr>"

text \<open>The end of the process, by \<open>sys.exit\<close> or by reaching the end of the script; the system
  closes what it held open.\<close>

definition sys_exit :: "int \<Rightarrow> world \<Rightarrow> world" where
  "sys_exit code w = w\<lparr>open_socks := [], pc := Exited code\<rparr>"

definition os_path_exists :: "world \<Rightarrow> bool" where
  "os_path_exists w = (pid_file w \<noteq> None)"

definition os_remove :: "world \<Rightarrow> py_error + world" where
  "os_remove w =
     (if pid_file w = None then Inl FileNotFoundError else Inr (emit Unlink (w\<lparr>pid_file := None\<rparr>)))"

section \<open>DaemonGPSTracker\<close>

definition tracker_init :: "world \<Rightarrow> world" where
  "tracker_init w = w\<lparr>running := False, gps_session := False, server_sock := None, client_sock := None\<rparr>"

text \<open>
  \<open>daemonize\<close>, followed in the process that survives both forks: \<open>fork1\<close> and \<open>fork2\<close> say
  whether each \<open>os.fork()\<close> succeeded, \<open>pid\<close> is \<open>os.getpid()\<close> of the final child.
\<close>

definition daemonize :: "bool \<Rightarrow> bool \<Rightarrow> nat \<Rightarrow> world \<Rightarrow> world" where
  "daemonize fork1 fork2 pid w =
     (if \<not> fork1 then sys_exit 1 (log_msg LvError ''Fork failed'' w)
      else if \<not> fork2 then sys_exit 1 (log_msg LvError ''Second fork failed'' w)
      else (log_msg LvInfo ''Daemon started'' (w\<lparr>pid_file := Some (str_nat pid @ [CHR 0x0A])\<rparr>))
             \<lparr>pc := Starting\<rparr>)"

text \<open>
  \<open>cleanup\<close>. The \<open>sdptool\<close> call and the two \<open>close()\<close> calls sit in \<open>try/except: pass\<close>;
  \<open>os.remove\<close> does not, it is guarded by \<open>os.path.exists\<close>. Neither socket field is reset.
\<close>

definition cleanup :: "world \<Rightarrow> py_error + world" where
  "cleanup w =
     (let w1 = w\<lparr>running := False\<rparr>;
          w2 = (case client_sock w1 of Some c \<Rightarrow> close_sock c w1 | None \<Rightarrow> w1);
          w3 = (case server_sock w2 of Some s \<Rightarrow> close_sock s w2 | None \<Rightarrow> w2)
      in case (if os_path_exists w3 then os_remove w3 else Inr w3) of
           Inl e \<Rightarrow> Inl e
         | Inr w4 \<Rightarrow> Inr (log_msg LvInfo ''Daemon stopped'' w4))"

text \<open>\<open>signal_handler\<close>; an exception leaving the handler would end the process with status 1.\<close>

definition signal_handler :: "nat \<Rightarrow> world \<Rightarrow> world" where
  "signal_handler signum w =
     (case cleanup ((log_msg LvInfo ''Received signal, shutting down...'' w)\<lparr>running := False\<rparr>) of
        Inl e \<Rightarrow> sys_exit 1 w
      | Inr w' \<Rightarrow> sys_exit 0 w')"

definition make_discoverable :: "bool \<Rightarrow> world \<Rightarrow> bool \<times> world" where
  "make_discoverable ok w =
     (if ok then (True, log_msg LvInfo ''Device is discoverable'' w)
      else (False, log_msg LvWarning ''Discoverable error'' w))"

datatype sdp_result = SdpOk | SdpNonZero | SdpRaises

definition register_sdp_service :: "sdp_result \<Rightarrow> world \<Rightarrow> bool \<times> world" where
  "register_sdp_service r w =
     (case r of
        SdpOk \<Rightarrow> (True, log_msg LvInfo ''SDP service registered'' w)
      | SdpNonZero \<Rightarrow> (False, w)
      | SdpRaises \<Rightarrow> (False, log_msg LvWarning ''SDP error'' w))"

text \<open>
  \<open>setup_bluetooth\<close>: the exception comes from \<open>socket.socket\<close> (nothing assigned) or from
  \<open>bind\<close>/\<open>listen\<close> (the socket is assigned and open).
\<close>

datatype bt_result = BtOk | BtNoSocket | BtBindFails

definition setup_bluetooth :: "bt_result \<Rightarrow> world \<Rightarrow> bool \<times> world" where
  "setup_bluetooth r w =
     (case r of
        BtNoSocket \<Rightarrow> (False, log_msg LvError ''Bluetooth error'' w)
      | BtBindFails \<Rightarrow>
          (let (i, w1) = new_sock Listener w
           in (False, log_msg LvError ''Bluetooth error'' (w1\<lparr>server_sock := Some i\<rparr>)))
      | BtOk \<Rightarrow>
          (let (i, w1) = new_sock Listener w
           in (True, log_msg LvInfo ''Bluetooth server listening on channel 1'' (w1\<lparr>server_sock := Some i\<rparr>))))"

definition setup_gps :: "bool \<Rightarrow> world \<Rightarrow> bool \<times> world" where
  "setup_gps ok w =
     (if ok then (True, log_msg LvInfo ''GPS initialized'' (w\<lparr>gps_session := True\<rparr>))
      else (False, log_msg LvWarning ''GPS error'' w))"

definition accept_connection :: "bool \<Rightarrow> world \<Rightarrow> bool \<times> world" where
  "accept_connection ok w =
     (let w1 = log_msg LvInfo ''Waiting for connection...'' w
      in if ok then
           (let (i, w2) = new_sock Peer w1
            in (True, log_msg LvInfo ''Connected to: '' (w2\<lparr>client_sock := Some i\<rparr>)))
         else (False, log_msg LvError ''Connection error'' w1))"

section \<open>The two loops of \<open>run\<close>\<close>

text \<open>
  \<open>run\<close> and \<open>send_gps_data\<close> loop for as long as the daemon lives, so they are a transition
  function: the process waits at a blocking call (\<open>pc\<close>), the outside world answers (an
  \<open>event\<close>), and the code runs on to the next blocking call. A termination signal is taken
  between two such calls.
\<close>

text \<open>The test of \<open>while self.running\<close> in \<open>run\<close>; when it fails \<open>run\<close> returns, \<open>start_daemon\<close>
  returns and the script ends.\<close>

definition run_loop_head :: "world \<Rightarrow> world" where
  "run_loop_head w = (if running w then w\<lparr>pc := Accepting\<rparr> else sys_exit 0 w)"

text \<open>What \<open>run\<close> does once \<open>send_gps_data\<close> has returned.\<close>

definition session_end :: "world \<Rightarrow> world" where
  "session_end w =
     (let w1 = (case client_sock w of
                  Some c \<Rightarrow> (close_sock c w)\<lparr>client_sock := None\<rparr>
                | None \<Rightarrow> w);
          w2 = log_msg LvInfo ''Client disconnected, waiting for new connection...'' w1
      in run_loop_head (sleep 1 w2))"

text \<open>The test of \<open>while self.running\<close> in \<open>send_gps_data\<close>.\<close>

definition send_loop_head :: "world \<Rightarrow> world" where
  "send_loop_head w = (if running w then w\<lparr>pc := Polling\<rparr> else session_end w)"

text \<open>\<open>run\<close> up to its loop.\<close>

definition run_setup :: "bool \<Rightarrow> bt_result \<Rightarrow> sdp_result \<Rightarrow> bool \<Rightarrow> world \<Rightarrow> world" where
  "run_setup disc bt sdp gps w =
     (let w1 = snd (make_discoverable disc w);
          (ok, w2) = setup_bluetooth bt w1
      in if \<not> ok then sys_exit 0 (log_msg LvError ''Failed to setup Bluetooth'' w2)
         else
           (let w3 = snd (register_sdp_service sdp w2);
                w4 = snd (setup_gps gps w3)
            in run_loop_head (w4\<lparr>running := True\<rparr>)))"

text \<open>One pass of the loop of \<open>run\<close>, from \<open>accept_connection\<close> to the first poll.\<close>

definition run_accept :: "bool \<Rightarrow> world \<Rightarrow> world" where
  "run_accept ok w =
     (let (acc, w1) = accept_connection ok w
      in if acc then send_loop_head (log_msg LvInfo ''Starting GPS transmission'' w1)
         else run_loop_head (sleep 1 w1))"

text \<open>One pass of the loop of \<open>send_gps_data\<close> up to \<open>send\<close>: with a fix and a client the line
  is built, otherwise the loop sleeps and starts over.\<close>

definition send_poll :: "('f \<Rightarrow> string) \<Rightarrow> 'f poll \<Rightarrow> world \<Rightarrow> world" where
  "send_poll fr p w =
     (case get_gps_data (gps_session w) p of
        None \<Rightarrow> send_loop_head (sleep 2 w)
      | Some gps_data \<Rightarrow>
          if client_sock w \<noteq> None then w\<lparr>pc := Sending (json_dumps fr gps_data @ [CHR 0x0A])\<rparr>
          else send_loop_head (sleep 2 w))"

text \<open>The \<open>send\<close> itself: all of the bytes are written, or it raises and the loop is left by
  \<open>break\<close>.\<close>

definition send_line :: "bool \<Rightarrow> string \<Rightarrow> world \<Rightarrow> world" where
  "send_line ok json_str w =
     (case client_sock w of
        Some c \<Rightarrow>
          if ok then send_loop_head (sleep 2 (w\<lparr>sent := sent w @ [(c, encode_utf8 json_str)]\<rparr>))
          else session_end (log_msg LvWarning ''Connection lost'' w)
      | None \<Rightarrow> session_end (log_msg LvWarning ''Connection lost'' w))"

datatype 'f event =
    EvDaemonize bool bool nat
  | EvSetup bool bt_result sdp_result bool
  | EvAccept bool
  | EvPoll "'f poll"
  | EvSend bool
  | EvSignal nat

text \<open>An event that does not answer the call the process waits at changes nothing. The
  handlers are installed by \<open>daemonize\<close>, so a signal is handled from \<open>Starting\<close> on.\<close>

fun step :: "('f \<Rightarrow> string) \<Rightarrow> 'f event \<Rightarrow> world \<Rightarrow> world" where
  "step fr (EvDaemonize f1 f2 pid) w = (if pc w = Daemonizing then daemonize f1 f2 pid w else w)"
| "step fr (EvSetup disc bt sdp gps) w = (if pc w = Starting then run_setup disc bt sdp gps w else w)"
| "step fr (EvAccept ok) w = (if pc w = Accepting then run_accept ok w else w)"
| "step fr (EvPoll p) w = (if pc w = Polling then send_poll fr p w else w)"
| "step fr (EvSend ok) w = (case pc w of Sending json_str \<Rightarrow> send_line ok json_str w | _ \<Rightarrow> w)"
| "step fr (EvSignal signum) w =
     (case pc w of
        AtMain \<Rightarrow> w
      | Daemonizing \<Rightarrow> w
      | Exited code \<Rightarrow> w
      | _ \<Rightarrow> signal_handler signum w)"

fun exec :: "('f \<Rightarrow> string) \<Rightarrow> 'f event list \<Rightarrow> world \<Rightarrow> world" where
  "exec fr [] w = w"
| "exec fr (e # es) w = exec fr es (step fr e w)"

text \<open>\<open>start_daemon\<close> up to its first blocking call.\<close>

definition start_daemon :: "world \<Rightarrow> world" where
  "start_daemon w = (tracker_init w)\<lparr>pc := Daemonizing\<rparr>"

section \<open>The commands \<open>stop\<close> and \<open>status\<close>\<close>

text \<open>\<open>str.strip()\<close> and \<open>int(...)\<close> on the text of the PID file: white space around, an optional
  sign, decimal digits, single underscores between digits.\<close>

definition is_space :: "char \<Rightarrow> bool" where
  "is_space c =
     (let n = (of_char c :: nat)
      in (0x09 \<le> n \<and> n \<le> 0x0D) \<or> (0x1C \<le> n \<and> n \<le> 0x20) \<or> n = 0x85 \<or> n = 0xA0)"

definition strip :: "string \<Rightarrow> string" where
  "strip s = rev (dropWhile is_space (rev (dropWhile is_space s)))"

definition digit_val :: "char \<Rightarrow> nat option" where
  "digit_val c = (let n = (of_char c :: nat) in if 48 \<le> n \<and> n \<le> 57 then Some (n - 48) else None)"

fun parse_digits :: "nat \<Rightarrow> bool \<Rightarrow> string \<Rightarrow> nat option" where
  "parse_digits acc prev [] = (if prev then Some acc else None)"
| "parse_digits acc prev (c # cs) =
     (case digit_val c of
        Some d \<Rightarrow> parse_digits (acc * 10 + d) True cs
      | None \<Rightarrow> if c = CHR ''_'' \<and> prev then parse_digits acc False cs else None)"

definition py_int :: "string \<Rightarrow> py_error + int" where
  "py_int s =
     (case strip s of
        [] \<Rightarrow> Inl ValueError
      | c # cs \<Rightarrow>
          if c = CHR ''-'' then
            (case parse_digits 0 False cs of None \<Rightarrow> Inl ValueError | Some n \<Rightarrow> Inr (- int n))
          else if c = CHR ''+'' then
            (case parse_digits 0 False cs of None \<Rightarrow> Inl ValueError | Some n \<Rightarrow> Inr (int n))
          else
            (case parse_digits 0 False (c # cs) of None \<Rightarrow> Inl ValueError | Some n \<Rightarrow> Inr (int n)))"

text \<open>\<open>open(pid_file, 'r')\<close> and \<open>f.read()\<close>.\<close>

definition read_pid_file :: "world \<Rightarrow> py_error + string" where
  "read_pid_file w = (case pid_file w of None \<Rightarrow> Inl FileNotFoundError | Some t \<Rightarrow> Inr t)"

text \<open>
  \<open>os.kill(pid, sig)\<close> acts on another process, so what it does is a parameter of the commands:
  the signal is delivered, or there is no such process, or the call fails otherwise.
\<close>

datatype kill_result = KillOk | KillNoProcess | KillFails

definition os_kill :: "(int \<Rightarrow> nat \<Rightarrow> kill_result) \<Rightarrow> int \<Rightarrow> nat \<Rightarrow> world \<Rightarrow> py_error + world" where
  "os_kill kill pid sig w =
     (case kill pid sig of
        KillOk \<Rightarrow> Inr (emit (Kill pid sig) w)
      | KillNoProcess \<Rightarrow> Inl ProcessLookupError
      | KillFails \<Rightarrow> Inl OtherError)"

definition SIGTERM :: nat where
  "SIGTERM = 15"

text \<open>\<open>time.sleep(1)\<close> in \<open>stop_daemon\<close>; \<open>cleaned\<close> says whether the signalled daemon removed the
  PID file in the meantime.\<close>

definition grace_period :: "bool \<Rightarrow> world \<Rightarrow> world" where
  "grace_period cleaned w = (let w1 = sleep 1 w in if cleaned then w1\<lparr>pid_file := None\<rparr> else w1)"

text \<open>The \<open>try\<close> block of \<open>stop_daemon\<close>: the world it ends in, or the exception and the world
  at the raise.\<close>

definition stop_try :: "(int \<Rightarrow> nat \<Rightarrow> kill_result) \<Rightarrow> bool \<Rightarrow> world \<Rightarrow> (py_error \<times> world) + world" where
  "stop_try kill cleaned w =
     (case read_pid_file w of
        Inl e \<Rightarrow> Inl (e, w)
      | Inr txt \<Rightarrow>
          (case py_int txt of
             Inl e \<Rightarrow> Inl (e, w)
           | Inr pid \<Rightarrow>
               (case os_kill kill pid SIGTERM w of
                  Inl e \<Rightarrow> Inl (e, w)
                | Inr w1 \<Rightarrow>
                    (let w2 = print (''Stopped daemon (PID: '' @ str_int pid @ '')'') w1;
                         w3 = grace_period cleaned w2
                     in if os_path_exists w3 then
                          (case os_remove w3 of Inl e \<Rightarrow> Inl (e, w3) | Inr w4 \<Rightarrow> Inr w4)
                        else Inr w3))))"

definition stop_daemon :: "(int \<Rightarrow> nat \<Rightarrow> kill_result) \<Rightarrow> bool \<Rightarrow> world \<Rightarrow> world" where
  "stop_daemon kill cleaned w =
     (case stop_try kill cleaned w of
        Inr w' \<Rightarrow> w'
      | Inl (e, w') \<Rightarrow>
          if e = FileNotFoundError then print ''Daemon is not running'' w'
          else print ''Error stopping daemon'' w')"

definition status_try :: "(int \<Rightarrow> nat \<Rightarrow> kill_result) \<Rightarrow> world \<Rightarrow> (py_error \<times> world) + world" where
  "status_try kill w =
     (case read_pid_file w of
        Inl e \<Rightarrow> Inl (e, w)
      | Inr txt \<Rightarrow>
          (case py_int txt of
             Inl e \<Rightarrow> Inl (e, w)
           | Inr pid \<Rightarrow>
               (case os_kill kill pid 0 w of
                  Inl e \<Rightarrow> Inl (e, w)
                | Inr w1 \<Rightarrow>
                    Inr (print ''  Log file: /var/log/gps_tracker.log''
                          (print (''Daemon is running (PID: '' @ str_int pid @ '')'') w1)))))"

text \<open>\<open>status_daemon\<close>; the \<open>os.remove\<close> of the second handler is outside every \<open>try\<close>. The
  check mark and the cross that open the printed lines are left out.\<close>

definition status_daemon :: "(int \<Rightarrow> nat \<Rightarrow> kill_result) \<Rightarrow> world \<Rightarrow> py_error + world" where
  "status_daemon kill w =
     (case status_try kill w of
        Inr w' \<Rightarrow> Inr w'
      | Inl (e, w') \<Rightarrow>
          if e = FileNotFoundError then Inr (print ''Daemon is not running'' w')
          else if e = ProcessLookupError then
            (let w1 = print ''Daemon PID file exists but process is dead'' w'
             in if os_path_exists w1 then os_remove w1 else Inr w1)
          else Inr (print ''Error checking status'' w'))"

section \<open>The command line\<close>

definition lower_char :: "char \<Rightarrow> char" where
  "lower_char c =
     (let n = (of_char c :: nat)
      in if (0x41 \<le> n \<and> n \<le> 0x5A) \<or> (0xC0 \<le> n \<and> n \<le> 0xDE \<and> n \<noteq> 0xD7) then char_of (n + 32) else c)"

definition lower :: "string \<Rightarrow> string" where
  "lower s = map lower_char s"

definition usage :: "world \<Rightarrow> world" where
  "usage w =
     print ''  sudo python3 daemon_bt_gps.py restart - Restart daemon''
      (print ''  sudo python3 daemon_bt_gps.py status  - Check status''
        (print ''  sudo python3 daemon_bt_gps.py stop    - Stop daemon''
          (print ''  sudo python3 daemon_bt_gps.py start   - Start daemon''
            (print ''Usage:'' w))))"

text \<open>
  The script body. \<open>argv\<close> is \<open>sys.argv\<close>, \<open>euid\<close> is \<open>os.geteuid()\<close>. \<open>start\<close> and \<open>restart\<close> leave
  the process in \<open>start_daemon\<close>; the other commands end it.
\<close>

definition main :: "(int \<Rightarrow> nat \<Rightarrow> kill_result) \<Rightarrow> bool \<Rightarrow> string list \<Rightarrow> nat \<Rightarrow> world \<Rightarrow> world" where
  "main kill cleaned argv euid w =
     (if length argv < 2 then sys_exit 1 (usage w)
      else if euid \<noteq> 0 then sys_exit 1 (print ''Error: Must run as root (use sudo)'' w)
      else
        (let command = lower (argv ! 1)
         in if command = ''start'' then
              start_daemon (print ''Starting GPS Tracker daemon...'' w)
            else if command = ''stop'' then sys_exit 0 (stop_daemon kill cleaned w)
            else if command = ''status'' then
              (case status_daemon kill w of Inl e \<Rightarrow> sys_exit 1 w | Inr w' \<Rightarrow> sys_exit 0 w')
            else if command = ''restart'' then
              start_daemon
                (print ''Starting GPS Tracker daemon...'' (sleep 2 (stop_daemon kill cleaned w)))
            else sys_exit 1 (print (''Unknown command: '' @ command) w)))"

section \<open>What the properties speak of\<close>

text \<open>The lifecycle state of the daemon, read off the place the process is at: it is starting
  from the end of \<open>daemonize\<close> until \<open>run\<close> sets \<open>running\<close>, running inside the two loops, and
  stopped when there is no daemon process.\<close>

datatype daemon_state = Stopped | StartingUp | Running

definition daemon_state :: "world \<Rightarrow> daemon_state" where
  "daemon_state w =
     (case pc w of
        Starting \<Rightarrow> StartingUp
      | Accepting \<Rightarrow> Running
      | Polling \<Rightarrow> Running
      | Sending json_str \<Rightarrow> Running
      | _ \<Rightarrow> Stopped)"

text \<open>The connections to peers that are open.\<close>

definition sessions :: "world \<Rightarrow> nat list" where
  "sessions w = map fst (filter (\<lambda>s. snd s = Peer) (open_socks w))"

text \<open>The characters from space to tilde: one byte each in UTF-8, none of them a line break.\<close>

definition printable :: "char \<Rightarrow> bool" where
  "printable c = (0x20 \<le> (of_char c :: nat) \<and> (of_char c :: nat) \<le> 0x7E)"

text \<open>A process that has just been started: nothing open, nothing written.\<close>

definition fresh_world :: "string option \<Rightarrow> world" where
  "fresh_world f =
     \<lparr>pid_file = f, running = False, gps_session = False, server_sock = None, client_sock = None,
      open_socks = [], next_sock = 0, sent = [], trace = [], pc = AtMain\<rparr>"

text \<open>What holds at each place of the process once \<open>start_daemon\<close> has been entered with no
  socket open: the sockets that are open, and who refers to them.\<close>

definition loop_inv :: "world \<Rightarrow> bool" where
  "loop_inv w =
     (case pc w of
        AtMain \<Rightarrow> open_socks w = [] \<and> client_sock w = None
      | Daemonizing \<Rightarrow> open_socks w = [] \<and> client_sock w = None
      | Starting \<Rightarrow> open_socks w = [] \<and> client_sock w = None
      | Accepting \<Rightarrow>
          running w \<and> client_sock w = None \<and>
          (\<exists>s. server_sock w = Some s \<and> open_socks w = [(s, Listener)] \<and> s < next_sock w)
      | Polling \<Rightarrow>
          running w \<and>
          (\<exists>s c. server_sock w = Some s \<and> client_sock w = Some c \<and>
             open_socks w = [(c, Peer), (s, Listener)] \<and> s < c \<and> c < next_sock w)
      | Sending json_str \<Rightarrow>
          running w \<and>
          (\<exists>s c. server_sock w = Some s \<and> client_sock w = Some c \<and>
             open_socks w = [(c, Peer), (s, Listener)] \<and> s < c \<and> c < next_sock w)
      | Exited code \<Rightarrow> open_socks w = [])"

text \<open>A line as \<open>send_gps_data\<close> builds it: the JSON text of a dict with the six keys of
  \<open>get_gps_data\<close>, then a line feed. The invariant of the bytes sent: each entry is the UTF-8
  encoding of such a line, and so is the line the process is about to send.\<close>

definition gps_line :: "('f \<Rightarrow> string) \<Rightarrow> string \<Rightarrow> bool" where
  "gps_line fr b =
     (\<exists>lat lon alt spd ts.
        b = json_dumps fr
              [(''type'', PyStr ''gps''), (''latitude'', lat), (''longitude'', lon),
               (''altitude'', alt), (''speed'', spd), (''timestamp'', ts)] @ [CHR 0x0A])"

definition wire_inv :: "('f \<Rightarrow> string) \<Rightarrow> world \<Rightarrow> bool" where
  "wire_inv fr w =
     (list_all (\<lambda>cb. \<exists>l. gps_line fr l \<and> snd cb = encode_utf8 l) (sent w)
      \<and> (case pc w of Sending json_str \<Rightarrow> gps_line fr json_str | _ \<Rightarrow> True))"

section \<open>A concrete run\<close>

text \<open>A stand-in for the float type, used where a property is tried on a concrete input: an
  integer part and fraction digits, written with a point between them.\<close>

definition decimal_repr :: "nat \<times> nat \<Rightarrow> string" where
  "decimal_repr x = str_nat (fst x) @ ''.'' @ str_nat (snd x)"

text \<open>A report with a fix, the events of a successful start, the worlds they lead to, the line
  sent for the fix, and three polls without a fix.\<close>

definition demo_fix :: "(nat \<times> nat) poll" where
  "demo_fix = PollReport [''class'' \<mapsto> PyStr ''TPV'', ''lat'' \<mapsto> PyFloat (48, 8566), ''lon'' \<mapsto> PyFloat (2, 3522)]"

definition demo_start :: "(nat \<times> nat) event list" where
  "demo_start = [EvDaemonize True True 4242, EvSetup True BtOk SdpOk True]"

definition demo_listening :: world where
  "demo_listening =
     \<lparr>pid_file = Some ''4242\<newline>'', running = True, gps_session = True,
      server_sock = Some 0, client_sock = None, open_socks = [(0, Listener)],
      next_sock = 1, sent = [],
      trace =
        [Log LvInfo ''Daemon started'', Log LvInfo ''Device is discoverable'',
         Log LvInfo ''Bluetooth server listening on channel 1'',
         Log LvInfo ''SDP service registered'',
         Log LvInfo ''GPS initialized''],
      pc = Accepting\<rparr>"

definition demo_serving :: world where
  "demo_serving =
     demo_listening
       \<lparr>client_sock := Some 1, open_socks := [(1, Peer), (0, Listener)], next_sock := 2,
        trace := trace demo_listening @
          [Log LvInfo ''Waiting for connection...'', Log LvInfo ''Connected to: '',
           Log LvInfo ''Starting GPS transmission''],
        pc := Polling\<rparr>"

definition demo_line :: string where
  "demo_line = json_dumps decimal_repr
     [(''type'', PyStr ''gps''), (''latitude'', PyFloat (48, 8566)), (''longitude'', PyFloat (2, 3522)),
      (''altitude'', PyInt 0), (''speed'', PyInt 0), (''timestamp'', PyStr '''')] @ [CHR 0x0A]"

definition demo_no_fix :: "(nat \<times> nat) poll list" where
  "demo_no_fix =
     [PollRaises,
      PollReport [''class'' \<mapsto> PyStr ''SKY''],
      PollReport [''class'' \<mapsto> PyStr ''TPV'', ''lat'' \<mapsto> PyFloat (48, 8566)]]"

section \<open>Properties\<close>

lemmas world_ops = os_path_exists_def os_remove_def close_sock_def emit_def log_msg_def print_def
  sleep_def sys_exit_def new_sock_def

subsection \<open>The poll\<close>

text \<open>
  C10: a poll gives a record exactly when the session exists and the report has class \<open>TPV\<close>
  and both \<open>lat\<close> and \<open>lon\<close>; the record then has the six keys in order, with altitude and
  speed defaulting to the integer 0 and the timestamp to the empty string.
\<close>

theorem C10_get_gps_data_record:
  "(get_gps_data g p = Some d) =
     (g \<and> (\<exists>r lat lon. p = PollReport r \<and> r ''class'' = Some (PyStr ''TPV'') \<and>
         r ''lat'' = Some lat \<and> r ''lon'' = Some lon \<and>
         d = [(''type'', PyStr ''gps''),
              (''latitude'', lat),
              (''longitude'', lon),
              (''altitude'', case r ''alt'' of None \<Rightarrow> PyInt 0 | Some v \<Rightarrow> v),
              (''speed'', case r ''speed'' of None \<Rightarrow> PyInt 0 | Some v \<Rightarrow> v),
              (''timestamp'', case r ''time'' of None \<Rightarrow> PyStr '''' | Some v \<Rightarrow> v)]))
   \<and> (get_gps_data g p = Some d \<longrightarrow>
         map fst d = [''type'', ''latitude'', ''longitude'', ''altitude'', ''speed'', ''timestamp''])"
  by (cases p) (auto simp: get_gps_data_def getattr_default_def split: option.splits)

theorem C10_get_gps_data_record_witness:
  "get_gps_data True
     (PollReport [''class'' \<mapsto> PyStr ''TPV'', ''lat'' \<mapsto> PyFloat (48::nat), ''lon'' \<mapsto> PyFloat 11])
   = Some [(''type'', PyStr ''gps''), (''latitude'', PyFloat 48), (''longitude'', PyFloat 11),
           (''altitude'', PyInt 0), (''speed'', PyInt 0), (''timestamp'', PyStr '''')]
   \<and> map fst [(''type'', PyStr ''gps''), (''latitude'', PyFloat (48::nat)), (''longitude'', PyFloat 11),
           (''altitude'', PyInt 0), (''speed'', PyInt 0), (''timestamp'', PyStr '''')]
     = [''type'', ''latitude'', ''longitude'', ''altitude'', ''speed'', ''timestamp'']"
  using C10_get_gps_data_record
    [of True "PollReport [''class'' \<mapsto> PyStr ''TPV'', ''lat'' \<mapsto> PyFloat (48::nat), ''lon'' \<mapsto> PyFloat 11]"
        "[(''type'', PyStr ''gps''), (''latitude'', PyFloat 48), (''longitude'', PyFloat 11),
           (''altitude'', PyInt 0), (''speed'', PyInt 0), (''timestamp'', PyStr '''')]"]
  by (simp add: get_gps_data_def)

lemma py_int_4242: "py_int ''4242\<newline>'' = Inr 4242"
  by (simp add: py_int_def strip_def is_space_def digit_val_def)

lemma py_int_empty: "py_int [] = Inl ValueError"
  by (simp add: py_int_def strip_def)

lemma str_int_4242: "str_int 4242 = ''4242''"
  by (simp add: str_int_def str_nat.simps digit_of_def)

subsection \<open>The command \<open>stop\<close>\<close>

text \<open>
  C2, as stated, fails: with the PID file holding 4242, the process alive and the file still
  there after the wait, \<open>stop_daemon\<close> removes the file itself.
\<close>

theorem C2_stop_leaves_file_counterexample:
  "pid_file (stop_daemon (\<lambda>pid sig. KillOk) False (fresh_world (Some ''4242\<newline>''))) = None
   \<and> trace (stop_daemon (\<lambda>pid sig. KillOk) False (fresh_world (Some ''4242\<newline>'')))
       = [Kill 4242 15, Print ''Stopped daemon (PID: 4242)'', Sleep 1, Unlink]"
  by (simp add: stop_daemon_def stop_try_def read_pid_file_def os_kill_def grace_period_def
      fresh_world_def py_int_4242 str_int_4242 SIGTERM_def world_ops)

text \<open>
  C2, amended: when the PID file holds an integer and the signal is delivered, \<open>stop_daemon\<close>
  sends SIGTERM to that process id, prints its line, sleeps one second, and removes the PID
  file itself if it is still there; in either case no PID file is left.
\<close>

theorem C2_stop_daemon_removes_file:
  "pid_file w = Some txt \<Longrightarrow> py_int txt = Inr pid \<Longrightarrow> kill pid SIGTERM = KillOk \<Longrightarrow>
     trace (stop_daemon kill cleaned w)
       = trace w @ [Kill pid SIGTERM, Print (''Stopped daemon (PID: '' @ str_int pid @ '')''), Sleep 1]
           @ (if cleaned then [] else [Unlink])
     \<and> pid_file (stop_daemon kill cleaned w) = None"
  by (simp add: stop_daemon_def stop_try_def read_pid_file_def os_kill_def grace_period_def world_ops)

theorem C2_stop_daemon_removes_file_witness:
  "pid_file (fresh_world (Some ''4242\<newline>'')) = Some ''4242\<newline>''
   \<and> py_int ''4242\<newline>'' = Inr 4242
   \<and> trace (stop_daemon (\<lambda>pid sig. KillOk) False (fresh_world (Some ''4242\<newline>'')))
       = [Kill 4242 15, Print ''Stopped daemon (PID: 4242)'', Sleep 1, Unlink]
   \<and> trace (stop_daemon (\<lambda>pid sig. KillOk) True (fresh_world (Some ''4242\<newline>'')))
       = [Kill 4242 15, Print ''Stopped daemon (PID: 4242)'', Sleep 1]
   \<and> pid_file (stop_daemon (\<lambda>pid sig. KillOk) False (fresh_world (Some ''4242\<newline>''))) = None"
  using C2_stop_daemon_removes_file [of "fresh_world (Some ''4242\<newline>'')" "''4242\<newline>''" 4242 "\<lambda>pid sig. KillOk" False]
        C2_stop_daemon_removes_file [of "fresh_world (Some ''4242\<newline>'')" "''4242\<newline>''" 4242 "\<lambda>pid sig. KillOk" True]
  by (simp add: py_int_4242 str_int_4242 SIGTERM_def fresh_world_def)

subsection \<open>The command \<open>status\<close>\<close>

text \<open>
  C9, as stated, fails: with an empty PID file \<open>status_daemon\<close> reports an error, which is none
  of the three outcomes, and leaves the file.
\<close>

theorem C9_status_three_outcomes_counterexample:
  "status_daemon (\<lambda>pid sig. KillOk) (fresh_world (Some []))
     = Inr (print ''Error checking status'' (fresh_world (Some [])))
   \<and> pid_file (print ''Error checking status'' (fresh_world (Some []))) = Some []"
  by (simp add: status_daemon_def status_try_def read_pid_file_def py_int_empty fresh_world_def world_ops)

text \<open>
  C9, amended: \<open>status_daemon\<close> has four outcomes. Without a PID file it reports not running.
  With a PID file holding an integer it probes the process with signal 0: if the probe
  succeeds it reports running and leaves the file; if there is no such process it reports
  the stale file and deletes it. If the text is not an integer, or the probe fails in another
  way, it reports an error and leaves the file.
\<close>

theorem C9_status_daemon_outcomes:
  "(pid_file w = None \<longrightarrow> status_daemon kill w = Inr (print ''Daemon is not running'' w))
   \<and> (pid_file w = Some txt \<and> py_int txt = Inr pid \<and> kill pid 0 = KillOk \<longrightarrow>
        status_daemon kill w
          = Inr (print ''  Log file: /var/log/gps_tracker.log''
                  (print (''Daemon is running (PID: '' @ str_int pid @ '')'') (emit (Kill pid 0) w))))
   \<and> (pid_file w = Some txt \<and> py_int txt = Inr pid \<and> kill pid 0 = KillNoProcess \<longrightarrow>
        status_daemon kill w
          = Inr (emit Unlink ((print ''Daemon PID file exists but process is dead'' w)\<lparr>pid_file := None\<rparr>)))
   \<and> (pid_file w = Some txt \<and> (py_int txt = Inl ValueError \<or> py_int txt = Inr pid \<and> kill pid 0 = KillFails) \<longrightarrow>
        status_daemon kill w = Inr (print ''Error checking status'' w))"
  apply (intro conjI impI)
     apply (simp add: status_daemon_def status_try_def read_pid_file_def)
    apply (simp add: status_daemon_def status_try_def read_pid_file_def os_kill_def)
   apply (simp add: status_daemon_def status_try_def read_pid_file_def os_kill_def world_ops)
  apply (auto simp add: status_daemon_def status_try_def read_pid_file_def os_kill_def)
  done

theorem C9_status_daemon_outcomes_witness:
  "status_daemon (\<lambda>pid sig. KillOk) (fresh_world None) = Inr (print ''Daemon is not running'' (fresh_world None))
   \<and> status_daemon (\<lambda>pid sig. KillOk) (fresh_world (Some ''4242\<newline>''))
       = Inr (print ''  Log file: /var/log/gps_tracker.log''
               (print ''Daemon is running (PID: 4242)'' (emit (Kill 4242 0) (fresh_world (Some ''4242\<newline>'')))))
   \<and> status_daemon (\<lambda>pid sig. KillNoProcess) (fresh_world (Some ''4242\<newline>''))
       = Inr (emit Unlink ((print ''Daemon PID file exists but process is dead''
               (fresh_world (Some ''4242\<newline>'')))\<lparr>pid_file := None\<rparr>))
   \<and> status_daemon (\<lambda>pid sig. KillFails) (fresh_world (Some ''4242\<newline>''))
       = Inr (print ''Error checking status'' (fresh_world (Some ''4242\<newline>'')))
   \<and> status_daemon (\<lambda>pid sig. KillOk) (fresh_world (Some []))
       = Inr (print ''Error checking status'' (fresh_world (Some [])))"
  using C9_status_daemon_outcomes [of "fresh_world None" "\<lambda>pid sig. KillOk"]
        C9_status_daemon_outcomes [of "fresh_world (Some ''4242\<newline>'')" "\<lambda>pid sig. KillOk" "''4242\<newline>''" 4242]
        C9_status_daemon_outcomes [of "fresh_world (Some ''4242\<newline>'')" "\<lambda>pid sig. KillNoProcess" "''4242\<newline>''" 4242]
        C9_status_daemon_outcomes [of "fresh_world (Some ''4242\<newline>'')" "\<lambda>pid sig. KillFails" "''4242\<newline>''" 4242]
        C9_status_daemon_outcomes [of "fresh_world (Some [])" "\<lambda>pid sig. KillOk" "[]" 0]
  by (simp add: py_int_4242 py_int_empty str_int_4242 fresh_world_def)

subsection \<open>The command line\<close>

lemma main_no_args: "length argv < 2 \<Longrightarrow> main kill cleaned argv euid w = sys_exit 1 (usage w)"
  by (simp add: main_def)

lemma main_not_root:
  "2 \<le> length argv \<Longrightarrow> euid \<noteq> 0 \<Longrightarrow>
     main kill cleaned argv euid w = sys_exit 1 (print ''Error: Must run as root (use sudo)'' w)"
  by (simp add: main_def)

lemma main_unknown:
  "2 \<le> length argv \<Longrightarrow> euid = 0 \<Longrightarrow>
   lower (argv ! 1) \<notin> {''start'', ''stop'', ''status'', ''restart''} \<Longrightarrow>
     main kill cleaned argv euid w = sys_exit 1 (print (''Unknown command: '' @ lower (argv ! 1)) w)"
  by (simp add: main_def Let_def)

lemma usage_trace:
  "usage w = w\<lparr>trace := trace w @ map Print
     [''Usage:'',
      ''  sudo python3 daemon_bt_gps.py start   - Start daemon'',
      ''  sudo python3 daemon_bt_gps.py stop    - Stop daemon'',
      ''  sudo python3 daemon_bt_gps.py status  - Check status'',
      ''  sudo python3 daemon_bt_gps.py restart - Restart daemon'']\<rparr>"
  by (simp add: usage_def print_def emit_def)

lemma print_trace: "print m w = w\<lparr>trace := trace w @ map Print [m]\<rparr>"
  by (simp add: print_def emit_def)

lemma exit_after_prints:
  "w' = sys_exit 1 (w\<lparr>trace := trace w @ map Print (m # ms)\<rparr>) \<Longrightarrow>
     pc w' = Exited 1
     \<and> (\<exists>msgs. msgs \<noteq> [] \<and> trace w' = trace w @ map Print msgs)
     \<and> pid_file w' = pid_file w \<and> next_sock w' = next_sock w \<and> open_socks w' = []
     \<and> server_sock w' = server_sock w \<and> client_sock w' = client_sock w \<and> sent w' = sent w"
  apply (simp add: sys_exit_def)
  apply (rule exI [of _ "m # ms"])
  apply simp
  done


text \<open>
  C8: without arguments the script prints the usage and exits with status 1; with arguments
  but not as root it prints the permission error and exits with status 1; as root with an
  unknown command it prints that and exits with status 1. In all three cases nothing but the
  printed lines happens before the exit: the PID file is as it was and no socket was made.
\<close>

theorem C8_main_refuses:
  "(length argv < 2 \<longrightarrow> main kill cleaned argv euid w = sys_exit 1 (usage w))
   \<and> (2 \<le> length argv \<and> euid \<noteq> 0 \<longrightarrow>
        main kill cleaned argv euid w = sys_exit 1 (print ''Error: Must run as root (use sudo)'' w))
   \<and> (2 \<le> length argv \<and> euid = 0
        \<and> lower (argv ! 1) \<notin> {''start'', ''stop'', ''status'', ''restart''} \<longrightarrow>
        main kill cleaned argv euid w = sys_exit 1 (print (''Unknown command: '' @ lower (argv ! 1)) w))
   \<and> (length argv < 2 \<or> euid \<noteq> 0 \<or> lower (argv ! 1) \<notin> {''start'', ''stop'', ''status'', ''restart''} \<longrightarrow>
        pc (main kill cleaned argv euid w) = Exited 1
        \<and> (\<exists>msgs. msgs \<noteq> [] \<and> trace (main kill cleaned argv euid w) = trace w @ map Print msgs)
        \<and> pid_file (main kill cleaned argv euid w) = pid_file w
        \<and> next_sock (main kill cleaned argv euid w) = next_sock w
        \<and> open_socks (main kill cleaned argv euid w) = []
        \<and> server_sock (main kill cleaned argv euid w) = server_sock w
        \<and> client_sock (main kill cleaned argv euid w) = client_sock w
        \<and> sent (main kill cleaned argv euid w) = sent w)"
proof -
  have p1: "length argv < 2 \<longrightarrow> main kill cleaned argv euid w = sys_exit 1 (usage w)"
    by (simp add: main_no_args)
  have p2: "2 \<le> length argv \<and> euid \<noteq> 0 \<longrightarrow>
        main kill cleaned argv euid w = sys_exit 1 (print ''Error: Must run as root (use sudo)'' w)"
    by (simp add: main_not_root)
  have p3: "2 \<le> length argv \<and> euid = 0
        \<and> lower (argv ! 1) \<notin> {''start'', ''stop'', ''status'', ''restart''} \<longrightarrow>
        main kill cleaned argv euid w = sys_exit 1 (print (''Unknown command: '' @ lower (argv ! 1)) w)"
    using main_unknown [of argv euid kill cleaned w] by blast
  have p4: "length argv < 2 \<or> euid \<noteq> 0 \<or> lower (argv ! 1) \<notin> {''start'', ''stop'', ''status'', ''restart''} \<longrightarrow>
        pc (main kill cleaned argv euid w) = Exited 1
        \<and> (\<exists>msgs. msgs \<noteq> [] \<and> trace (main kill cleaned argv euid w) = trace w @ map Print msgs)
        \<and> pid_file (main kill cleaned argv euid w) = pid_file w
        \<and> next_sock (main kill cleaned argv euid w) = next_sock w
        \<and> open_socks (main kill cleaned argv euid w) = []
        \<and> server_sock (main kill cleaned argv euid w) = server_sock w
        \<and> client_sock (main kill cleaned argv euid w) = client_sock w
        \<and> sent (main kill cleaned argv euid w) = sent w" (is "?H \<longrightarrow> ?C")
  proof
    assume h: ?H
    consider (noargs) "length argv < 2"
      | (notroot) "2 \<le> length argv" "euid \<noteq> 0"
      | (unknown) "2 \<le> length argv" "euid = 0"
          "lower (argv ! 1) \<notin> {''start'', ''stop'', ''status'', ''restart''}"
      using h by (cases "length argv < 2"; cases "euid = 0") auto
    then show ?C
    proof cases
      case noargs
      have "main kill cleaned argv euid w = sys_exit 1 (w\<lparr>trace := trace w @ map Print
         [''Usage:'',
          ''  sudo python3 daemon_bt_gps.py start   - Start daemon'',
          ''  sudo python3 daemon_bt_gps.py stop    - Stop daemon'',
          ''  sudo python3 daemon_bt_gps.py status  - Check status'',
          ''  sudo python3 daemon_bt_gps.py restart - Restart daemon'']\<rparr>)"
        using main_no_args [OF noargs, of kill cleaned euid w] by (simp only: usage_trace)
      then show ?thesis by (rule exit_after_prints)
    next
      case notroot
      have "main kill cleaned argv euid w
              = sys_exit 1 (w\<lparr>trace := trace w @ map Print [''Error: Must run as root (use sudo)'']\<rparr>)"
        using main_not_root [OF notroot, of kill cleaned w] by (simp only: print_trace)
      then show ?thesis by (rule exit_after_prints)
    next
      case unknown
      have "main kill cleaned argv euid w
              = sys_exit 1 (w\<lparr>trace := trace w @ map Print [''Unknown command: '' @ lower (argv ! 1)]\<rparr>)"
        using main_unknown [OF unknown, of kill cleaned w] by (simp only: print_trace)
      then show ?thesis by (rule exit_after_prints)
    qed
  qed
  show ?thesis
    by (rule conjI [OF p1 conjI [OF p2 conjI [OF p3 p4]]])
qed

lemma lower_reload: "lower ''reload'' = ''reload''"
  by (simp add: lower_def lower_char_def)

theorem C8_main_refuses_witness:
  "main (\<lambda>pid sig. KillOk) False [''daemon_bt_gps.py'', ''start''] 1000 (fresh_world None)
     = sys_exit 1 (print ''Error: Must run as root (use sudo)'' (fresh_world None))
   \<and> main (\<lambda>pid sig. KillOk) False [''daemon_bt_gps.py''] 0 (fresh_world None)
     = sys_exit 1 (usage (fresh_world None))
   \<and> main (\<lambda>pid sig. KillOk) False [''daemon_bt_gps.py'', ''reload''] 0 (fresh_world None)
     = sys_exit 1 (print ''Unknown command: reload'' (fresh_world None))
   \<and> pc (main (\<lambda>pid sig. KillOk) False [''daemon_bt_gps.py'', ''start''] 1000 (fresh_world None)) = Exited 1
   \<and> pid_file (main (\<lambda>pid sig. KillOk) False [''daemon_bt_gps.py'', ''start''] 1000 (fresh_world None)) = None
   \<and> open_socks (main (\<lambda>pid sig. KillOk) False [''daemon_bt_gps.py'', ''start''] 1000 (fresh_world None)) = []"
proof -
  note a = C8_main_refuses [of "[''daemon_bt_gps.py'', ''start'']" "\<lambda>pid sig. KillOk" False 1000 "fresh_world None"]
  note b = C8_main_refuses [of "[''daemon_bt_gps.py'']" "\<lambda>pid sig. KillOk" False 0 "fresh_world None"]
  note c = C8_main_refuses [of "[''daemon_bt_gps.py'', ''reload'']" "\<lambda>pid sig. KillOk" False 0 "fresh_world None"]
  have h1: "main (\<lambda>pid sig. KillOk) False [''daemon_bt_gps.py'', ''start''] 1000 (fresh_world None)
     = sys_exit 1 (print ''Error: Must run as root (use sudo)'' (fresh_world None))"
    using a [THEN conjunct2, THEN conjunct1] by simp
  have h2: "main (\<lambda>pid sig. KillOk) False [''daemon_bt_gps.py''] 0 (fresh_world None)
     = sys_exit 1 (usage (fresh_world None))"
    using b [THEN conjunct1] by simp
  have h3: "main (\<lambda>pid sig. KillOk) False [''daemon_bt_gps.py'', ''reload''] 0 (fresh_world None)
     = sys_exit 1 (print ''Unknown command: reload'' (fresh_world None))"
    using c [THEN conjunct2, THEN conjunct2, THEN conjunct1] by (simp add: lower_reload)
  have h456: "pc (main (\<lambda>pid sig. KillOk) False [''daemon_bt_gps.py'', ''start''] 1000 (fresh_world None)) = Exited 1
   \<and> pid_file (main (\<lambda>pid sig. KillOk) False [''daemon_bt_gps.py'', ''start''] 1000 (fresh_world None)) = None
   \<and> open_socks (main (\<lambda>pid sig. KillOk) False [''daemon_bt_gps.py'', ''start''] 1000 (fresh_world None)) = []"
    using a [THEN conjunct2, THEN conjunct2, THEN conjunct2] by (simp add: fresh_world_def)
  show ?thesis
    by (rule conjI [OF h1 conjI [OF h2 conjI [OF h3 h456]]])
qed

subsection \<open>The loops of the daemon\<close>

lemma inv_daemonize: "loop_inv w \<Longrightarrow> pc w = Daemonizing \<Longrightarrow> loop_inv (daemonize f1 f2 p w)"
  by (simp add: loop_inv_def daemonize_def world_ops)

lemma inv_setup: "loop_inv w \<Longrightarrow> pc w = Starting \<Longrightarrow> loop_inv (run_setup d bt sdp g w)"
  by (cases bt; cases sdp)
     (simp_all add: loop_inv_def run_setup_def make_discoverable_def setup_bluetooth_def
       register_sdp_service_def setup_gps_def run_loop_head_def world_ops Let_def)

lemma inv_accept: "loop_inv w \<Longrightarrow> pc w = Accepting \<Longrightarrow> loop_inv (run_accept ok w)"
  by (auto simp: loop_inv_def run_accept_def accept_connection_def run_loop_head_def
        send_loop_head_def world_ops Let_def)

lemma session_end_result:
  "running w \<Longrightarrow> client_sock w = Some c \<Longrightarrow>
     session_end w =
       (close_sock c w)\<lparr>client_sock := None,
          trace := trace w @ [Log LvInfo ''Client disconnected, waiting for new connection...'', Sleep 1],
          pc := Accepting\<rparr>"
  by (simp add: session_end_def run_loop_head_def close_sock_def log_msg_def sleep_def emit_def)

lemma inv_poll: "loop_inv w \<Longrightarrow> pc w = Polling \<Longrightarrow> loop_inv (send_poll fr p w)"
  by (cases "get_gps_data (gps_session w) p")
     (auto simp: loop_inv_def send_poll_def send_loop_head_def sleep_def emit_def)

lemma inv_send: "loop_inv w \<Longrightarrow> pc w = Sending js \<Longrightarrow> loop_inv (send_line ok js w)"
  by (cases ok)
     (auto simp: loop_inv_def send_line_def send_loop_head_def session_end_result
        sleep_def emit_def log_msg_def close_sock_def)

lemma inv_signal: "loop_inv (signal_handler n w)"
  by (auto simp: signal_handler_def loop_inv_def sys_exit_def split: sum.splits)

lemma inv_step: "loop_inv w \<Longrightarrow> loop_inv (step fr e w)"
  by (cases e)
     (auto simp: inv_daemonize inv_setup inv_accept inv_poll inv_send inv_signal split: pc.splits)

lemma inv_exec: "loop_inv w \<Longrightarrow> loop_inv (exec fr es w)"
  by (induction es arbitrary: w) (simp_all add: inv_step)

lemma inv_start: "open_socks w = [] \<Longrightarrow> loop_inv (start_daemon w)"
  by (simp add: loop_inv_def start_daemon_def tracker_init_def)

lemma inv_reach: "open_socks w0 = [] \<Longrightarrow> loop_inv (exec fr es (start_daemon w0))"
  by (simp add: inv_exec inv_start)

lemma inv_sessions: "loop_inv w \<Longrightarrow> length (sessions w) \<le> 1"
  by (cases "pc w") (auto simp: loop_inv_def sessions_def)

lemma str_nat_4242: "str_nat 4242 = ''4242''"
  by (simp add: str_nat.simps digit_of_def)

lemma run_demo_start: "exec fr demo_start (start_daemon (fresh_world None)) = demo_listening"
  by (simp add: demo_start_def demo_listening_def start_daemon_def tracker_init_def fresh_world_def
        daemonize_def run_setup_def make_discoverable_def setup_bluetooth_def
        register_sdp_service_def setup_gps_def run_loop_head_def world_ops str_nat_4242)

lemma run_demo_accept: "step fr (EvAccept True) demo_listening = demo_serving"
  by (simp add: demo_listening_def demo_serving_def run_accept_def accept_connection_def
        send_loop_head_def world_ops)

lemma demo_fix_data:
  "get_gps_data True demo_fix =
     Some [(''type'', PyStr ''gps''), (''latitude'', PyFloat (48, 8566)), (''longitude'', PyFloat (2, 3522)),
      (''altitude'', PyInt 0), (''speed'', PyInt 0), (''timestamp'', PyStr '''')]"
  by (simp add: get_gps_data_def demo_fix_def getattr_default_def)

lemma run_demo_poll: "step decimal_repr (EvPoll demo_fix) demo_serving = demo_serving\<lparr>pc := Sending demo_line\<rparr>"
  by (simp add: demo_serving_def demo_listening_def send_poll_def demo_fix_data demo_line_def)

lemma exec_append: "exec fr (es @ es') w = exec fr es' (exec fr es w)"
  by (induction es arbitrary: w) simp_all

lemma run_demo_serving:
  "exec fr (demo_start @ [EvAccept True]) (start_daemon (fresh_world None)) = demo_serving"
  by (simp add: exec_append run_demo_start run_demo_accept del: step.simps)

lemma run_demo_sending:
  "exec decimal_repr (demo_start @ [EvAccept True, EvPoll demo_fix]) (start_daemon (fresh_world None))
     = demo_serving\<lparr>pc := Sending demo_line\<rparr>"
  by (simp add: exec_append run_demo_start run_demo_accept run_demo_poll del: step.simps)

lemma fresh_no_socks: "open_socks (fresh_world f) = []"
  by (simp add: fresh_world_def)

text \<open>
  C4: in every state the daemon reaches from \<open>start_daemon\<close>, entered with no socket open, at
  most one connection to a peer is open. Whenever the process is about to accept, none is
  open and \<open>client_sock\<close> is \<open>None\<close>; a successful accept then goes straight into the
  streaming loop with exactly the new connection open.
\<close>

theorem C4_single_session:
  assumes "open_socks w0 = []"
  shows "length (sessions (exec fr es (start_daemon w0))) \<le> 1
     \<and> (pc (exec fr es (start_daemon w0)) = Accepting \<longrightarrow>
          sessions (exec fr es (start_daemon w0)) = []
          \<and> client_sock (exec fr es (start_daemon w0)) = None
          \<and> pc (step fr (EvAccept True) (exec fr es (start_daemon w0))) = Polling
          \<and> sessions (step fr (EvAccept True) (exec fr es (start_daemon w0)))
              = [next_sock (exec fr es (start_daemon w0))])"
proof -
  define w where "w = exec fr es (start_daemon w0)"
  have inv: "loop_inv w"
    unfolding w_def using assms by (rule inv_reach)
  have a: "length (sessions w) \<le> 1"
    using inv by (rule inv_sessions)
  have b: "pc w = Accepting \<longrightarrow>
          sessions w = [] \<and> client_sock w = None
          \<and> pc (step fr (EvAccept True) w) = Polling
          \<and> sessions (step fr (EvAccept True) w) = [next_sock w]"
    using inv
    by (auto simp: loop_inv_def sessions_def run_accept_def accept_connection_def
          send_loop_head_def world_ops Let_def)
  show ?thesis
    using a b unfolding w_def by (rule conjI)
qed

theorem C4_single_session_witness:
  "open_socks (fresh_world None) = []
   \<and> pc (exec decimal_repr demo_start (start_daemon (fresh_world None))) = Accepting
   \<and> sessions (exec decimal_repr demo_start (start_daemon (fresh_world None))) = []
   \<and> sessions (step decimal_repr (EvAccept True) (exec decimal_repr demo_start (start_daemon (fresh_world None)))) = [1]
   \<and> length (sessions (exec decimal_repr (demo_start @ [EvAccept True]) (start_daemon (fresh_world None)))) \<le> 1"
proof -
  have f: "open_socks (fresh_world None) = []"
    by (simp add: fresh_world_def)
  have p: "pc (exec decimal_repr demo_start (start_daemon (fresh_world None))) = Accepting"
    by (simp add: run_demo_start demo_listening_def)
  have n: "next_sock (exec decimal_repr demo_start (start_daemon (fresh_world None))) = 1"
    by (simp add: run_demo_start demo_listening_def)
  note a = C4_single_session [OF f, of decimal_repr demo_start]
  note b = C4_single_session [OF f, of decimal_repr "demo_start @ [EvAccept True]"]
  from a p n have a2: "sessions (exec decimal_repr demo_start (start_daemon (fresh_world None))) = []"
    and a3: "sessions (step decimal_repr (EvAccept True) (exec decimal_repr demo_start (start_daemon (fresh_world None)))) = [1]"
    by simp_all
  from b have b1: "length (sessions (exec decimal_repr (demo_start @ [EvAccept True]) (start_daemon (fresh_world None)))) \<le> 1"
    by (rule conjunct1)
  show ?thesis
    by (rule conjI [OF f conjI [OF p conjI [OF a2 conjI [OF a3 b1]]]])
qed

text \<open>
  C5: in every reachable state that waits in \<open>send\<close>, a failing \<open>send\<close> sends nothing more
  (the bytes sent are as before), closes the connection, and leaves the process about to
  accept again, still running, with the PID file and the listening socket as they were; a
  successful accept then starts a new session.
\<close>

theorem C5_write_failure_ends_session:
  assumes "open_socks w0 = []" and "pc (exec fr es (start_daemon w0)) = Sending js"
  shows "pc (step fr (EvSend False) (exec fr es (start_daemon w0))) = Accepting
     \<and> daemon_state (step fr (EvSend False) (exec fr es (start_daemon w0))) = Running
     \<and> running (step fr (EvSend False) (exec fr es (start_daemon w0)))
     \<and> sent (step fr (EvSend False) (exec fr es (start_daemon w0))) = sent (exec fr es (start_daemon w0))
     \<and> sessions (step fr (EvSend False) (exec fr es (start_daemon w0))) = []
     \<and> client_sock (step fr (EvSend False) (exec fr es (start_daemon w0))) = None
     \<and> pid_file (step fr (EvSend False) (exec fr es (start_daemon w0))) = pid_file (exec fr es (start_daemon w0))
     \<and> (\<exists>s. server_sock (step fr (EvSend False) (exec fr es (start_daemon w0))) = Some s
            \<and> open_socks (step fr (EvSend False) (exec fr es (start_daemon w0))) = [(s, Listener)])
     \<and> pc (step fr (EvAccept True) (step fr (EvSend False) (exec fr es (start_daemon w0)))) = Polling
     \<and> sessions (step fr (EvAccept True) (step fr (EvSend False) (exec fr es (start_daemon w0))))
          = [next_sock (exec fr es (start_daemon w0))]"
proof -
  define w where "w = exec fr es (start_daemon w0)"
  have inv: "loop_inv w"
    unfolding w_def using assms(1) by (rule inv_reach)
  have pcw: "pc w = Sending js"
    unfolding w_def by (rule assms(2))
  from inv pcw obtain s c where sc: "running w" "server_sock w = Some s" "client_sock w = Some c"
      "open_socks w = [(c, Peer), (s, Listener)]" "s < c"
    by (auto simp: loop_inv_def)
  have st: "step fr (EvSend False) w =
      w\<lparr>open_socks := [(s, Listener)], client_sock := None,
        trace := trace w @ [Log LvWarning ''Connection lost'',
           Log LvInfo ''Client disconnected, waiting for new connection...'', Sleep 1],
        pc := Accepting\<rparr>"
    using pcw sc
    by (simp add: send_line_def session_end_result log_msg_def emit_def close_sock_def)
  have "pc (step fr (EvSend False) w) = Accepting
     \<and> daemon_state (step fr (EvSend False) w) = Running
     \<and> running (step fr (EvSend False) w)
     \<and> sent (step fr (EvSend False) w) = sent w
     \<and> sessions (step fr (EvSend False) w) = []
     \<and> client_sock (step fr (EvSend False) w) = None
     \<and> pid_file (step fr (EvSend False) w) = pid_file w
     \<and> (\<exists>s. server_sock (step fr (EvSend False) w) = Some s
            \<and> open_socks (step fr (EvSend False) w) = [(s, Listener)])
     \<and> pc (step fr (EvAccept True) (step fr (EvSend False) w)) = Polling
     \<and> sessions (step fr (EvAccept True) (step fr (EvSend False) w)) = [next_sock w]"
    unfolding st using sc
    by (simp add: daemon_state_def sessions_def run_accept_def accept_connection_def
          send_loop_head_def world_ops Let_def)
  then show ?thesis
    unfolding w_def .
qed

theorem C5_write_failure_ends_session_witness:
  "pc (exec decimal_repr (demo_start @ [EvAccept True, EvPoll demo_fix]) (start_daemon (fresh_world None)))
     = Sending demo_line
   \<and> pc (step decimal_repr (EvSend False)
        (exec decimal_repr (demo_start @ [EvAccept True, EvPoll demo_fix]) (start_daemon (fresh_world None))))
     = Accepting
   \<and> sessions (step decimal_repr (EvSend False)
        (exec decimal_repr (demo_start @ [EvAccept True, EvPoll demo_fix]) (start_daemon (fresh_world None))))
     = []
   \<and> sessions (step decimal_repr (EvAccept True) (step decimal_repr (EvSend False)
        (exec decimal_repr (demo_start @ [EvAccept True, EvPoll demo_fix]) (start_daemon (fresh_world None)))))
     = [2]"
proof -
  let ?w = "exec decimal_repr (demo_start @ [EvAccept True, EvPoll demo_fix]) (start_daemon (fresh_world None))"
  have p: "pc ?w = Sending demo_line"
    by (simp only: run_demo_sending) simp
  have n: "next_sock ?w = 2"
    by (simp only: run_demo_sending) (simp add: demo_serving_def)
  note a = C5_write_failure_ends_session [OF fresh_no_socks p]
  have a1: "pc (step decimal_repr (EvSend False) ?w) = Accepting"
    using a by (rule conjunct1)
  have a2: "sessions (step decimal_repr (EvSend False) ?w) = []"
    using a by blast
  have a3: "sessions (step decimal_repr (EvAccept True) (step decimal_repr (EvSend False) ?w)) = [2]"
    using a n by (simp del: step.simps)
  show ?thesis
    by (rule conjI [OF p conjI [OF a1 conjI [OF a2 a3]]])
qed

lemma send_poll_no_fix:
  "running w \<Longrightarrow> get_gps_data (gps_session w) p = None \<Longrightarrow>
     send_poll fr p w = w\<lparr>trace := trace w @ [Sleep 2], pc := Polling\<rparr>"
  by (simp add: send_poll_def send_loop_head_def sleep_def emit_def)

lemma polls_no_fix:
  "running w \<Longrightarrow> pc w = Polling \<Longrightarrow> \<forall>p \<in> set ps. get_gps_data (gps_session w) p = None \<Longrightarrow>
     exec fr (map EvPoll ps) w = w\<lparr>trace := trace w @ replicate (length ps) (Sleep 2)\<rparr>"
proof (induction ps arbitrary: w)
  case Nil
  then show ?case by simp
next
  case (Cons p ps)
  let ?w1 = "w\<lparr>trace := trace w @ [Sleep 2]\<rparr>"
  have s: "step fr (EvPoll p) w = ?w1"
    using Cons.prems by (simp add: send_poll_no_fix)
  have "exec fr (map EvPoll ps) ?w1 = ?w1\<lparr>trace := trace ?w1 @ replicate (length ps) (Sleep 2)\<rparr>"
    by (rule Cons.IH) (use Cons.prems in simp_all)
  then show ?case
    using s by (simp add: replicate_append_same)
qed

text \<open>
  C6: in every reachable state that is about to poll, any number of polls that raise or give
  no fix change nothing but the trace, which gets one two-second sleep per poll: nothing is
  sent and the session goes on.
\<close>

theorem C6_no_fix_sends_nothing:
  assumes "open_socks w0 = []" and "pc (exec fr es (start_daemon w0)) = Polling"
    and "\<forall>p \<in> set ps. get_gps_data (gps_session (exec fr es (start_daemon w0))) p = None"
  shows "exec fr (map EvPoll ps) (exec fr es (start_daemon w0))
           = (exec fr es (start_daemon w0))
               \<lparr>trace := trace (exec fr es (start_daemon w0)) @ replicate (length ps) (Sleep 2)\<rparr>"
proof -
  have "loop_inv (exec fr es (start_daemon w0))"
    using assms(1) by (rule inv_reach)
  then have "running (exec fr es (start_daemon w0))"
    using assms(2) by (simp add: loop_inv_def)
  then show ?thesis
    using assms(2,3) by (rule polls_no_fix)
qed

theorem C6_no_fix_sends_nothing_witness:
  "pc (exec decimal_repr (demo_start @ [EvAccept True]) (start_daemon (fresh_world None))) = Polling
   \<and> list_all (\<lambda>p. get_gps_data True p = None) demo_no_fix
   \<and> exec decimal_repr (map EvPoll demo_no_fix)
        (exec decimal_repr (demo_start @ [EvAccept True]) (start_daemon (fresh_world None)))
      = demo_serving\<lparr>trace := trace demo_serving @ [Sleep 2, Sleep 2, Sleep 2]\<rparr>
   \<and> sent (exec decimal_repr (map EvPoll demo_no_fix)
        (exec decimal_repr (demo_start @ [EvAccept True]) (start_daemon (fresh_world None)))) = []"
proof -
  let ?w = "exec decimal_repr (demo_start @ [EvAccept True]) (start_daemon (fresh_world None))"
  have w: "?w = demo_serving"
    by (rule run_demo_serving)
  have p: "pc ?w = Polling"
    by (simp only: w) (simp add: demo_serving_def)
  have g: "list_all (\<lambda>p. get_gps_data True p = None) demo_no_fix"
    by (simp add: demo_no_fix_def get_gps_data_def)
  have h: "\<forall>p \<in> set demo_no_fix. get_gps_data (gps_session ?w) p = None"
    using g by (simp only: w) (simp add: demo_serving_def demo_listening_def list_all_iff)
  note a = C6_no_fix_sends_nothing [OF fresh_no_socks p h]
  have a1: "exec decimal_repr (map EvPoll demo_no_fix) ?w
      = demo_serving\<lparr>trace := trace demo_serving @ [Sleep 2, Sleep 2, Sleep 2]\<rparr>"
    using a by (simp only: w) (simp add: demo_no_fix_def)
  have a2: "sent (exec decimal_repr (map EvPoll demo_no_fix) ?w) = []"
    by (simp only: a1) (simp add: demo_serving_def demo_listening_def)
  show ?thesis
    by (rule conjI [OF p conjI [OF g conjI [OF a1 a2]]])
qed

subsection \<open>Shutdown\<close>

lemma cleanup_result:
  "cleanup w =
     Inr (w\<lparr>running := False, pid_file := None,
            open_socks := filter (\<lambda>s. Some (fst s) \<noteq> client_sock w \<and> Some (fst s) \<noteq> server_sock w)
                            (open_socks w),
            trace := trace w @ (if pid_file w = None then [] else [Unlink])
                       @ [Log LvInfo ''Daemon stopped'']\<rparr>)"
  by (cases "client_sock w"; cases "server_sock w"; cases "pid_file w")
     (simp_all add: cleanup_def Let_def world_ops)

lemma filter_handles_twice:
  "filter (\<lambda>s. Some (fst s) \<noteq> c \<and> Some (fst s) \<noteq> v)
     (filter (\<lambda>s. Some (fst s) \<noteq> c \<and> Some (fst s) \<noteq> v) xs)
   = filter (\<lambda>s. Some (fst s) \<noteq> c \<and> Some (fst s) \<noteq> v) xs"
  by (induction xs) simp_all

lemma cleanup_twice:
  "cleanup (w\<lparr>running := False, pid_file := None,
            open_socks := filter (\<lambda>s. Some (fst s) \<noteq> client_sock w \<and> Some (fst s) \<noteq> server_sock w)
                            (open_socks w),
            trace := t\<rparr>)
   = Inr (w\<lparr>running := False, pid_file := None,
            open_socks := filter (\<lambda>s. Some (fst s) \<noteq> client_sock w \<and> Some (fst s) \<noteq> server_sock w)
                            (open_socks w),
            trace := t @ [Log LvInfo ''Daemon stopped'']\<rparr>)"
  by (simp only: cleanup_result) (simp add: filter_handles_twice del: filter_filter)

lemma cleanup_closes_all:
  "loop_inv w \<Longrightarrow>
     filter (\<lambda>s. Some (fst s) \<noteq> client_sock w \<and> Some (fst s) \<noteq> server_sock w) (open_socks w) = []"
  by (cases "pc w") (auto simp: loop_inv_def)

lemma signal_handler_result:
  "signal_handler n w =
     w\<lparr>running := False, pid_file := None, open_socks := [],
       trace := trace w @ [Log LvInfo ''Received signal, shutting down...'']
                  @ (if pid_file w = None then [] else [Unlink]) @ [Log LvInfo ''Daemon stopped''],
       pc := Exited 0\<rparr>"
  by (cases "pid_file w")
     (simp_all add: signal_handler_def cleanup_result log_msg_def emit_def sys_exit_def)

text \<open>
  C3: \<open>cleanup\<close> never raises. Its result is the world with \<open>running\<close> false, without PID file,
  and with the client and the server socket closed (any other socket stays as it was); from
  every state the daemon reaches no socket is left open. A second \<open>cleanup\<close> right after the
  first does not raise either and changes nothing but the log, to which it adds its closing
  line again. \<open>signal_handler\<close> is the shutdown, \<open>cleanup\<close> followed by the exit: it ends in
  the stopped state, with status 0, no PID file and no socket, and run a second time it
  changes nothing but the log.
\<close>

theorem C3_shutdown_idempotent:
  "(let w1 = w\<lparr>running := False, pid_file := None,
                open_socks := filter (\<lambda>s. Some (fst s) \<noteq> client_sock w \<and> Some (fst s) \<noteq> server_sock w)
                                (open_socks w),
                trace := trace w @ (if pid_file w = None then [] else [Unlink])
                           @ [Log LvInfo ''Daemon stopped'']\<rparr>
    in cleanup w = Inr w1
       \<and> cleanup w1 = Inr (w1\<lparr>trace := trace w1 @ [Log LvInfo ''Daemon stopped'']\<rparr>)
       \<and> (open_socks w0 = [] \<and> w = exec fr es (start_daemon w0) \<longrightarrow> open_socks w1 = []))
   \<and> (let w2 = signal_handler n w
      in pc w2 = Exited 0 \<and> daemon_state w2 = Stopped \<and> \<not> running w2 \<and> pid_file w2 = None
         \<and> open_socks w2 = []
         \<and> signal_handler n w2 =
             w2\<lparr>trace := trace w2 @ [Log LvInfo ''Received signal, shutting down...'',
                                     Log LvInfo ''Daemon stopped'']\<rparr>)"
proof -
  let ?keep = "\<lambda>s. Some (fst s) \<noteq> client_sock w \<and> Some (fst s) \<noteq> server_sock w"
  let ?t = "trace w @ (if pid_file w = None then [] else [Unlink]) @ [Log LvInfo ''Daemon stopped'']"
  let ?w1 = "w\<lparr>running := False, pid_file := None, open_socks := filter ?keep (open_socks w),
                trace := ?t\<rparr>"
  have a: "cleanup w = Inr ?w1"
    by (rule cleanup_result)
  have b: "cleanup ?w1 = Inr (?w1\<lparr>trace := trace ?w1 @ [Log LvInfo ''Daemon stopped'']\<rparr>)"
    by (simp only: cleanup_twice) simp
  have c: "open_socks w0 = [] \<and> w = exec fr es (start_daemon w0) \<longrightarrow> open_socks ?w1 = []"
  proof
    assume h: "open_socks w0 = [] \<and> w = exec fr es (start_daemon w0)"
    then have "loop_inv w"
      by (simp add: inv_reach)
    then show "open_socks ?w1 = []"
      by (simp add: cleanup_closes_all)
  qed
  let ?w2 = "signal_handler n w"
  have d1: "pc ?w2 = Exited 0"
    by (simp add: signal_handler_result)
  have d2: "daemon_state ?w2 = Stopped"
    by (simp add: signal_handler_result daemon_state_def)
  have d3: "\<not> running ?w2"
    by (simp add: signal_handler_result)
  have d4: "pid_file ?w2 = None"
    by (simp add: signal_handler_result)
  have d5: "open_socks ?w2 = []"
    by (simp add: signal_handler_result)
  have e: "signal_handler n ?w2 =
             ?w2\<lparr>trace := trace ?w2 @ [Log LvInfo ''Received signal, shutting down...'',
                                     Log LvInfo ''Daemon stopped'']\<rparr>"
    by (subst signal_handler_result) (simp add: signal_handler_result)
  show ?thesis
    unfolding Let_def
    by (rule conjI [OF conjI [OF a conjI [OF b c]]
          conjI [OF d1 conjI [OF d2 conjI [OF d3 conjI [OF d4 conjI [OF d5 e]]]]]])
qed

theorem C3_shutdown_idempotent_witness:
  "open_socks (fresh_world None) = []
   \<and> demo_serving = exec decimal_repr (demo_start @ [EvAccept True]) (start_daemon (fresh_world None))
   \<and> cleanup demo_serving
       = Inr (demo_serving\<lparr>running := False, pid_file := None, open_socks := [],
                trace := trace demo_serving @ [Unlink, Log LvInfo ''Daemon stopped'']\<rparr>)
   \<and> cleanup (demo_serving\<lparr>running := False, pid_file := None, open_socks := [],
                trace := trace demo_serving @ [Unlink, Log LvInfo ''Daemon stopped'']\<rparr>)
       = Inr (demo_serving\<lparr>running := False, pid_file := None, open_socks := [],
                trace := trace demo_serving
                   @ [Unlink, Log LvInfo ''Daemon stopped'', Log LvInfo ''Daemon stopped'']\<rparr>)
   \<and> daemon_state (signal_handler 15 demo_serving) = Stopped
   \<and> open_socks (signal_handler 15 demo_serving) = []"
proof -
  have r: "demo_serving = exec decimal_repr (demo_start @ [EvAccept True]) (start_daemon (fresh_world None))"
    by (rule run_demo_serving [symmetric])
  note t = C3_shutdown_idempotent [where w = demo_serving and ?w0.0 = "fresh_world None"
      and fr = decimal_repr and es = "demo_start @ [EvAccept True]" and n = 15, unfolded Let_def]
  have k: "filter (\<lambda>s. Some (fst s) \<noteq> client_sock demo_serving \<and> Some (fst s) \<noteq> server_sock demo_serving)
             (open_socks demo_serving) = []"
    using t [THEN conjunct1, THEN conjunct2, THEN conjunct2] fresh_no_socks [of None] r
    by simp
  have p: "pid_file demo_serving \<noteq> None"
    by (simp add: demo_serving_def demo_listening_def)
  have a: "cleanup demo_serving
       = Inr (demo_serving\<lparr>running := False, pid_file := None, open_socks := [],
                trace := trace demo_serving @ [Unlink, Log LvInfo ''Daemon stopped'']\<rparr>)"
    using t [THEN conjunct1, THEN conjunct1] p by (simp only: k) simp
  have b: "cleanup (demo_serving\<lparr>running := False, pid_file := None, open_socks := [],
                trace := trace demo_serving @ [Unlink, Log LvInfo ''Daemon stopped'']\<rparr>)
       = Inr (demo_serving\<lparr>running := False, pid_file := None, open_socks := [],
                trace := trace demo_serving
                   @ [Unlink, Log LvInfo ''Daemon stopped'', Log LvInfo ''Daemon stopped'']\<rparr>)"
    using t [THEN conjunct1, THEN conjunct2, THEN conjunct1] p by (simp only: k) simp
  have c: "daemon_state (signal_handler 15 demo_serving) = Stopped"
    using t [THEN conjunct2] by (rule conjunct1 [OF conjunct2])
  have d: "open_socks (signal_handler 15 demo_serving) = []"
    using t [THEN conjunct2] by simp
  show ?thesis
    by (rule conjI [OF fresh_no_socks conjI [OF r conjI [OF a conjI [OF b conjI [OF c d]]]]])
qed

subsection \<open>The bytes on the wire\<close>

lemma digit_of_printable: "printable (digit_of n)"
proof -
  have "list_all printable ''0123456789abcdef''"
    by (simp add: printable_def)
  then have "\<forall>k < length ''0123456789abcdef''. printable (''0123456789abcdef'' ! k)"
    by (simp only: list_all_length)
  then show ?thesis
    by (simp add: digit_of_def)
qed

lemma printable_lits:
  "printable (CHR 0x22)" "printable (CHR 0x5C)" "printable CHR '':''" "printable CHR '' ''"
  "printable CHR '',''" "printable CHR ''{''" "printable CHR ''}''" "printable CHR ''-''"
  "printable CHR ''b''" "printable CHR ''f''" "printable CHR ''n''" "printable CHR ''r''"
  "printable CHR ''t''" "printable CHR ''u''" "printable CHR ''0''"
  by (simp_all add: printable_def)

lemma esc_char_printable: "list_all printable (esc_char c)"
proof (cases "0x20 \<le> (of_char c :: nat) \<and> (of_char c :: nat) \<le> 0x7E")
  case True
  then have "printable c"
    by (simp add: printable_def)
  then show ?thesis
    by (simp add: esc_char_def Let_def printable_lits digit_of_printable)
next
  case False
  then show ?thesis
    by (auto simp: esc_char_def Let_def printable_lits digit_of_printable)
qed

lemma json_quote_printable: "list_all printable (json_quote s)"
proof -
  have "list_all printable (concat (map esc_char s))"
    by (induction s) (simp_all add: esc_char_printable)
  then show ?thesis
    by (simp add: json_quote_def printable_lits)
qed

lemma str_nat_printable: "list_all printable (str_nat n)"
proof (induction n rule: str_nat.induct)
  case (1 n)
  show ?case
  proof (cases "n < 10")
    case True
    then show ?thesis by (subst str_nat.simps) (simp add: digit_of_printable)
  next
    case False
    then show ?thesis using 1 by (subst str_nat.simps) (simp add: digit_of_printable)
  qed
qed

lemma str_int_printable: "list_all printable (str_int i)"
  by (simp add: str_int_def str_nat_printable printable_lits)

lemma json_val_printable: "\<forall>x. list_all printable (fr x) \<Longrightarrow> list_all printable (json_val fr v)"
  by (cases v) (simp_all add: str_int_printable json_quote_printable)

lemma json_items_printable: "\<forall>x. list_all printable (fr x) \<Longrightarrow> list_all printable (json_items fr d)"
  by (induction fr d rule: json_items.induct)
     (simp_all add: json_val_printable json_quote_printable printable_lits)

lemma json_dumps_printable: "\<forall>x. list_all printable (fr x) \<Longrightarrow> list_all printable (json_dumps fr d)"
  by (simp add: json_dumps_def json_items_printable printable_lits)

lemma encode_utf8_printable: "list_all printable s \<Longrightarrow> encode_utf8 (s @ [CHR 0x0A]) = s @ [CHR 0x0A]"
  by (induction s) (simp_all add: encode_utf8_def utf8_char_def printable_def)

lemma get_gps_data_shape:
  "get_gps_data g p = Some d \<Longrightarrow>
     \<exists>lat lon alt spd ts.
       d = [(''type'', PyStr ''gps''), (''latitude'', lat), (''longitude'', lon),
            (''altitude'', alt), (''speed'', spd), (''timestamp'', ts)]"
  by (cases p) (auto simp: get_gps_data_def split: option.splits if_splits)

lemma wire_inv_no_send:
  "wire_inv fr w \<Longrightarrow> sent w' = sent w \<Longrightarrow> \<forall>js. pc w' \<noteq> Sending js \<Longrightarrow> wire_inv fr w'"
  by (cases "pc w'") (simp_all add: wire_inv_def)

lemma run_loop_head_quiet: "sent (run_loop_head w) = sent w \<and> (\<forall>js. pc (run_loop_head w) \<noteq> Sending js)"
  by (simp add: run_loop_head_def sys_exit_def)

lemma session_end_quiet: "sent (session_end w) = sent w \<and> (\<forall>js. pc (session_end w) \<noteq> Sending js)"
  by (cases "client_sock w")
     (simp_all add: session_end_def Let_def run_loop_head_def world_ops)

lemma send_loop_head_quiet:
  "sent (send_loop_head w) = sent w \<and> (\<forall>js. pc (send_loop_head w) \<noteq> Sending js)"
  by (simp add: send_loop_head_def session_end_quiet)

lemma daemonize_quiet:
  "sent (daemonize f1 f2 p w) = sent w \<and> (\<forall>js. pc (daemonize f1 f2 p w) \<noteq> Sending js)"
  by (simp add: daemonize_def world_ops)

lemma run_setup_quiet:
  "sent (run_setup d bt sdp g w) = sent w \<and> (\<forall>js. pc (run_setup d bt sdp g w) \<noteq> Sending js)"
  by (cases bt; cases sdp)
     (simp_all add: run_setup_def make_discoverable_def setup_bluetooth_def
        register_sdp_service_def setup_gps_def run_loop_head_def world_ops Let_def)

lemma run_accept_quiet:
  "sent (run_accept ok w) = sent w \<and> (\<forall>js. pc (run_accept ok w) \<noteq> Sending js)"
  by (simp add: run_accept_def accept_connection_def run_loop_head_def send_loop_head_def
        session_end_def world_ops Let_def split: option.splits)

lemma signal_handler_quiet:
  "sent (signal_handler n w) = sent w \<and> (\<forall>js. pc (signal_handler n w) \<noteq> Sending js)"
  by (cases "client_sock w"; cases "server_sock w"; cases "pid_file w")
     (simp_all add: signal_handler_def cleanup_def world_ops Let_def)

lemma send_poll_no_fix_quiet:
  "get_gps_data (gps_session w) p = None \<Longrightarrow>
     sent (send_poll fr p w) = sent w \<and> (\<forall>js. pc (send_poll fr p w) \<noteq> Sending js)"
  using send_loop_head_quiet [of "sleep 2 w"] by (simp add: send_poll_def sleep_def emit_def)

lemma wire_poll: "wire_inv fr w \<Longrightarrow> wire_inv fr (send_poll fr p w)"
proof (cases "get_gps_data (gps_session w) p")
  case None
  assume "wire_inv fr w"
  then show ?thesis
    using send_poll_no_fix_quiet [OF None, of fr] by (blast intro: wire_inv_no_send)
next
  case (Some d)
  assume inv: "wire_inv fr w"
  show ?thesis
  proof (cases "client_sock w")
    case None
    have "send_poll fr p w = send_loop_head (sleep 2 w)"
      using Some None by (simp add: send_poll_def)
    then show ?thesis
      using inv send_loop_head_quiet [of "sleep 2 w"]
      by (auto intro!: wire_inv_no_send [OF inv] simp: sleep_def emit_def)
  next
    case (Some c)
    have "gps_line fr (json_dumps fr d @ [CHR 0x0A])"
      using get_gps_data_shape [OF \<open>get_gps_data (gps_session w) p = Some d\<close>]
      unfolding gps_line_def by blast
    then show ?thesis
      using inv Some \<open>get_gps_data (gps_session w) p = Some d\<close>
      by (simp add: send_poll_def wire_inv_def)
  qed
qed

lemma wire_send: "wire_inv fr w \<Longrightarrow> pc w = Sending js \<Longrightarrow> wire_inv fr (send_line ok js w)"
proof -
  assume inv: "wire_inv fr w" and pcw: "pc w = Sending js"
  have line: "gps_line fr js"
    using inv pcw by (simp add: wire_inv_def)
  show ?thesis
  proof (cases "ok \<and> client_sock w \<noteq> None")
    case True
    then obtain c where c: "client_sock w = Some c" by auto
    let ?w1 = "sleep 2 (w\<lparr>sent := sent w @ [(c, encode_utf8 js)]\<rparr>)"
    have s: "send_line ok js w = send_loop_head ?w1"
      using True c by (simp add: send_line_def)
    have "list_all (\<lambda>cb. \<exists>l. gps_line fr l \<and> snd cb = encode_utf8 l) (sent ?w1)"
      using inv line by (auto simp: wire_inv_def sleep_def emit_def)
    then show ?thesis
      using send_loop_head_quiet [of ?w1]
      by (cases "pc (send_loop_head ?w1)") (simp_all add: s wire_inv_def)
  next
    case False
    then have s: "send_line ok js w = session_end (log_msg LvWarning ''Connection lost'' w)"
      by (cases "client_sock w") (auto simp: send_line_def)
    show ?thesis
      unfolding s
      using session_end_quiet [of "log_msg LvWarning ''Connection lost'' w"]
      by (auto intro!: wire_inv_no_send [OF inv] simp: log_msg_def emit_def)
  qed
qed

lemma wire_step: "wire_inv fr w \<Longrightarrow> wire_inv fr (step fr e w)"
proof (cases e)
  case (EvDaemonize f1 f2 p)
  assume "wire_inv fr w"
  then show ?thesis
    using EvDaemonize daemonize_quiet [of f1 f2 p w] by (auto intro: wire_inv_no_send)
next
  case (EvSetup d bt sdp g)
  assume "wire_inv fr w"
  then show ?thesis
    using EvSetup run_setup_quiet [of d bt sdp g w] by (auto intro: wire_inv_no_send)
next
  case (EvAccept ok)
  assume "wire_inv fr w"
  then show ?thesis
    using EvAccept run_accept_quiet [of ok w] by (auto intro: wire_inv_no_send)
next
  case (EvPoll p)
  assume "wire_inv fr w"
  then show ?thesis
    using EvPoll by (simp add: wire_poll)
next
  case (EvSend ok)
  assume "wire_inv fr w"
  then show ?thesis
    using EvSend by (cases "pc w") (simp_all add: wire_send)
next
  case (EvSignal n)
  assume "wire_inv fr w"
  then show ?thesis
    using EvSignal signal_handler_quiet [of n w]
    by (cases "pc w") (auto intro: wire_inv_no_send)
qed

lemma wire_exec: "wire_inv fr w \<Longrightarrow> wire_inv fr (exec fr es w)"
  by (induction es arbitrary: w) (simp_all add: wire_step)

lemma wire_start: "sent w = [] \<Longrightarrow> wire_inv fr (start_daemon w)"
  by (simp add: wire_inv_def start_daemon_def tracker_init_def)

text \<open>
  C7: when nothing has been sent at the start and a float is written in printable ASCII,
  every entry the daemon ever hands to \<open>send\<close> is the UTF-8 encoding of one line: the JSON
  text of a dict with exactly the keys \<open>type\<close> (the string \<open>gps\<close>), \<open>latitude\<close>, \<open>longitude\<close>,
  \<open>altitude\<close>, \<open>speed\<close> and \<open>timestamp\<close>, followed by a line feed. The encoding is the text itself,
  and all of its characters before the line feed are printable ASCII, so the line feed at the
  end is the only one. A poll without a fix sends nothing and does not lead to a \<open>send\<close>.
\<close>

theorem C7_wire_format:
  assumes "sent w0 = []" and "\<forall>x. list_all printable (fr x)"
  shows "(\<forall>cb \<in> set (sent (exec fr es (start_daemon w0))).
            \<exists>lat lon alt spd ts.
              snd cb = encode_utf8 (json_dumps fr
                  [(''type'', PyStr ''gps''), (''latitude'', lat), (''longitude'', lon),
                   (''altitude'', alt), (''speed'', spd), (''timestamp'', ts)] @ [CHR 0x0A])
              \<and> snd cb = json_dumps fr
                  [(''type'', PyStr ''gps''), (''latitude'', lat), (''longitude'', lon),
                   (''altitude'', alt), (''speed'', spd), (''timestamp'', ts)] @ [CHR 0x0A]
              \<and> list_all printable (json_dumps fr
                  [(''type'', PyStr ''gps''), (''latitude'', lat), (''longitude'', lon),
                   (''altitude'', alt), (''speed'', spd), (''timestamp'', ts)]))
       \<and> (\<forall>w p. get_gps_data (gps_session w) p = None \<longrightarrow>
             sent (step fr (EvPoll p) w) = sent w
             \<and> (pc w = Polling \<longrightarrow> (\<forall>js. pc (step fr (EvPoll p) w) \<noteq> Sending js)))"
proof (rule conjI)
  have inv: "wire_inv fr (exec fr es (start_daemon w0))"
    using assms(1) by (simp add: wire_exec wire_start)
  show "\<forall>cb \<in> set (sent (exec fr es (start_daemon w0))).
            \<exists>lat lon alt spd ts.
              snd cb = encode_utf8 (json_dumps fr
                  [(''type'', PyStr ''gps''), (''latitude'', lat), (''longitude'', lon),
                   (''altitude'', alt), (''speed'', spd), (''timestamp'', ts)] @ [CHR 0x0A])
              \<and> snd cb = json_dumps fr
                  [(''type'', PyStr ''gps''), (''latitude'', lat), (''longitude'', lon),
                   (''altitude'', alt), (''speed'', spd), (''timestamp'', ts)] @ [CHR 0x0A]
              \<and> list_all printable (json_dumps fr
                  [(''type'', PyStr ''gps''), (''latitude'', lat), (''longitude'', lon),
                   (''altitude'', alt), (''speed'', spd), (''timestamp'', ts)])"
  proof
    fix cb
    assume "cb \<in> set (sent (exec fr es (start_daemon w0)))"
    then obtain l where l: "gps_line fr l" "snd cb = encode_utf8 l"
      using inv by (auto simp: wire_inv_def list_all_iff)
    from l(1) obtain lat lon alt spd ts where d:
      "l = json_dumps fr
             [(''type'', PyStr ''gps''), (''latitude'', lat), (''longitude'', lon),
              (''altitude'', alt), (''speed'', spd), (''timestamp'', ts)] @ [CHR 0x0A]"
      unfolding gps_line_def by blast
    have p: "list_all printable (json_dumps fr
             [(''type'', PyStr ''gps''), (''latitude'', lat), (''longitude'', lon),
              (''altitude'', alt), (''speed'', spd), (''timestamp'', ts)])"
      using assms(2) by (rule json_dumps_printable)
    have e: "encode_utf8 l = l"
      unfolding d using p by (rule encode_utf8_printable)
    have s1: "snd cb = encode_utf8 (json_dumps fr
             [(''type'', PyStr ''gps''), (''latitude'', lat), (''longitude'', lon),
              (''altitude'', alt), (''speed'', spd), (''timestamp'', ts)] @ [CHR 0x0A])"
      using l(2) unfolding d .
    have s2: "snd cb = json_dumps fr
             [(''type'', PyStr ''gps''), (''latitude'', lat), (''longitude'', lon),
              (''altitude'', alt), (''speed'', spd), (''timestamp'', ts)] @ [CHR 0x0A]"
      using l(2) e unfolding d by (rule trans)
    show "\<exists>lat lon alt spd ts.
              snd cb = encode_utf8 (json_dumps fr
                  [(''type'', PyStr ''gps''), (''latitude'', lat), (''longitude'', lon),
                   (''altitude'', alt), (''speed'', spd), (''timestamp'', ts)] @ [CHR 0x0A])
              \<and> snd cb = json_dumps fr
                  [(''type'', PyStr ''gps''), (''latitude'', lat), (''longitude'', lon),
                   (''altitude'', alt), (''speed'', spd), (''timestamp'', ts)] @ [CHR 0x0A]
              \<and> list_all printable (json_dumps fr
                  [(''type'', PyStr ''gps''), (''latitude'', lat), (''longitude'', lon),
                   (''altitude'', alt), (''speed'', spd), (''timestamp'', ts)])"
      by (intro exI conjI) (rule s1, rule s2, rule p)
  qed
next
  show "\<forall>w p. get_gps_data (gps_session w) p = None \<longrightarrow>
             sent (step fr (EvPoll p) w) = sent w
             \<and> (pc w = Polling \<longrightarrow> (\<forall>js. pc (step fr (EvPoll p) w) \<noteq> Sending js))"
    using send_poll_no_fix_quiet by auto
qed

lemma decimal_repr_printable: "\<forall>x. list_all printable (decimal_repr x)"
  by (simp add: decimal_repr_def str_nat_printable) (simp add: printable_def)

lemma demo_line_text:
  \<open>demo_line = ''{"type": "gps", "latitude": 48.8566, "longitude": 2.3522, "altitude": 0, "speed": 0, "timestamp": ""}\<newline>''\<close>
  by (simp add: demo_line_def json_dumps_def json_quote_def esc_char_def decimal_repr_def
        str_int_def str_nat.simps digit_of_def)

lemma run_demo_sent:
  "sent (exec decimal_repr (demo_start @ [EvAccept True, EvPoll demo_fix, EvSend True])
          (start_daemon (fresh_world None))) = [(1, encode_utf8 demo_line)]"
proof -
  have "exec decimal_repr (demo_start @ [EvAccept True, EvPoll demo_fix, EvSend True])
          (start_daemon (fresh_world None))
        = step decimal_repr (EvSend True) (demo_serving\<lparr>pc := Sending demo_line\<rparr>)"
    using run_demo_sending
    by (simp add: exec_append del: step.simps)
  then show ?thesis
    by (simp add: send_line_def send_loop_head_def sleep_def emit_def demo_serving_def
          demo_listening_def)
qed

lemma fresh_nothing_sent: "sent (fresh_world f) = []"
  by (simp add: fresh_world_def)

theorem C7_wire_format_witness:
  \<open>sent (fresh_world None) = []
   \<and> (\<forall>x. list_all printable (decimal_repr x))
   \<and> sent (exec decimal_repr (demo_start @ [EvAccept True, EvPoll demo_fix, EvSend True])
            (start_daemon (fresh_world None)))
       = [(1, ''{"type": "gps", "latitude": 48.8566, "longitude": 2.3522, "altitude": 0, "speed": 0, "timestamp": ""}\<newline>'')]
   \<and> list_all printable
        ''{"type": "gps", "latitude": 48.8566, "longitude": 2.3522, "altitude": 0, "speed": 0, "timestamp": ""}''\<close>
proof -
  let ?es = "demo_start @ [EvAccept True, EvPoll demo_fix, EvSend True]"
  have e: "encode_utf8 demo_line = demo_line"
    unfolding demo_line_def
    by (rule encode_utf8_printable) (rule json_dumps_printable [OF decimal_repr_printable])
  have s: "sent (exec decimal_repr ?es (start_daemon (fresh_world None))) = [(1, demo_line)]"
    using run_demo_sent e by simp
  note c = C7_wire_format [of "fresh_world None" decimal_repr ?es, OF fresh_nothing_sent decimal_repr_printable, THEN conjunct1]
  have "\<exists>j. demo_line = j @ [CHR 0x0A] \<and> list_all printable j"
    using c unfolding s by auto
  then obtain j where j: "demo_line = j @ [CHR 0x0A]" "list_all printable j"
    by blast
  have "butlast demo_line = j"
    by (subst j(1)) (rule butlast_snoc)
  then have p: "list_all printable (butlast demo_line)"
    using j(2) by (simp only:)
  have s': \<open>sent (exec decimal_repr ?es (start_daemon (fresh_world None)))
       = [(1, ''{"type": "gps", "latitude": 48.8566, "longitude": 2.3522, "altitude": 0, "speed": 0, "timestamp": ""}\<newline>'')]\<close>
    using s unfolding demo_line_text .
  have p': \<open>list_all printable
        ''{"type": "gps", "latitude": 48.8566, "longitude": 2.3522, "altitude": 0, "speed": 0, "timestamp": ""}''\<close>
    using p unfolding demo_line_text by simp
  show ?thesis
    by (rule conjI [OF fresh_nothing_sent conjI [OF decimal_repr_printable conjI [OF s' p']]])
qed

subsection \<open>The PID file\<close>

text \<open>
  C1 at the failing input: the daemon is started, \<open>daemonize\<close> writes the PID file, and
  \<open>setup_bluetooth\<close> cannot create its socket. \<open>run\<close> returns, the process ends with
  status 0, and the PID file is still there.
\<close>

theorem C1_pid_file_left_after_failed_setup:
  "pc (exec decimal_repr [EvDaemonize True True 4242, EvSetup True BtNoSocket SdpOk True]
         (start_daemon (fresh_world None))) = Exited 0
   \<and> daemon_state (exec decimal_repr [EvDaemonize True True 4242, EvSetup True BtNoSocket SdpOk True]
         (start_daemon (fresh_world None))) = Stopped
   \<and> pid_file (exec decimal_repr [EvDaemonize True True 4242, EvSetup True BtNoSocket SdpOk True]
         (start_daemon (fresh_world None))) = Some ''4242\<newline>''"
  by (simp add: start_daemon_def tracker_init_def fresh_world_def
        daemonize_def run_setup_def make_discoverable_def setup_bluetooth_def
        daemon_state_def world_ops str_nat_4242)

end
